theory Spec2Isabelle
  imports Main "HOL-Library.Word" "HOL-Library.List_Lexorder" "HOL-Library.Char_ord"
    "HOL-Library.Multiset"
begin

unbundle bit_operations_syntax

section \<open>Values and errors\<close>

text \<open>
  Go's \<open>int64\<close>, \<open>uint32\<close> and \<open>byte\<close> are machine words: \<open>+\<close> and \<open>-\<close> wrap, and
  the comparisons of \<open>int64\<close> are the signed ones (\<open><s\<close>, \<open>\<le>s\<close>). Go compares
  strings bytewise and lexicographically, which is the order of \<open>List_Lexorder\<close> over
  \<open>Char_ord\<close>. The account version is incremented by the store (\<open>version + 1\<close> in SQL)
  and is an \<open>int\<close>.
\<close>

type_synonym int64 = "64 word"
type_synonym uint32 = "32 word"
type_synonym byte = "8 word"

text \<open>
  A Go \<open>error\<close>: the sentinel \<open>sql.ErrNoRows\<close>, an error made by \<open>errors.New\<close> or
  \<open>fmt.Errorf\<close> (its message), or an error raised by the store for a violated
  constraint.
\<close>

datatype error = ErrNoRows | ErrMsg string | ErrDb string

text \<open>\<open>err.Error()\<close>, for the errors wrapped with \<open>%w\<close> and \<open>%v\<close>.\<close>

fun error_text :: "error \<Rightarrow> string" where
  "error_text ErrNoRows = ''sql: no rows in result set''"
| "error_text (ErrMsg m) = m"
| "error_text (ErrDb m) = m"

section \<open>The store\<close>

text \<open>
  The tables the ledger and the transaction service read and write. A table is the list
  of its rows; a nullable column is an \<open>option\<close>. The time stamp columns
  (\<open>created_at\<close>, \<open>updated_at\<close>) are written from the wall clock, are never read by
  the code below, and are left out. Statements fail only where the model says so
  (no matching row, a violated constraint); a lost connection is outside the model.
\<close>

record account_row =
  a_id :: string
  a_card_id :: "string option"
  a_account_id :: "string option"
  a_balance :: int64
  a_version :: int
  a_status :: "string option"

record ledger_row =
  le_transaction_id :: string
  le_account_id :: string
  le_amount :: int64
  le_entry_type :: string
  le_balance :: int64

text \<open>
  The \<open>transactions\<close> table. \<open>storeTransaction\<close> names the first eight columns (and
  \<open>created_at\<close>); \<open>total_amount\<close> is a column it does not name. \<open>card_id\<close> and
  \<open>counter\<close> are the columns \<open>checkDoubleSpending\<close> reads; no statement of the service
  writes them, and they are NULL in a table that has no such columns.
\<close>

record transaction_row =
  t_transaction_id :: string
  t_from_card_id :: string
  t_to_card_id :: string
  t_amount :: int64
  t_currency :: string
  t_type :: string
  t_signature :: string
  t_status :: string
  t_total_amount :: "int64 option"
  t_card_id :: "string option"
  t_counter :: "uint32 option"

record card_row =
  c_card_id :: string
  c_cak :: string

record db =
  accounts :: "account_row list"
  ledger_entries :: "ledger_row list"
  payment_states :: "(string \<times> string) list"
  transactions :: "transaction_row list"
  cards :: "card_row list"

text \<open>
  The service code and the migration files do not agree on the \<open>transactions\<close> table:
  \<open>checkDoubleSpending\<close> selects \<open>card_id\<close> and \<open>counter\<close>, and \<open>storeTransaction\<close>
  inserts a \<open>type\<close> of DEBIT or CREDIT and no \<open>total_amount\<close>, while the table of
  \<open>004_create_transactions_table.sql\<close> has no \<open>card_id\<close> or \<open>counter\<close>, requires
  \<open>total_amount\<close> and restricts \<open>type\<close>. The layout is therefore a parameter of the
  model: whether the table has the two columns, and which rows its constraints accept
  (the uniqueness of \<open>transaction_id\<close> apart, which holds in every layout).
\<close>

record tx_schema =
  counter_columns :: bool
  row_constraints :: "db \<Rightarrow> transaction_row \<Rightarrow> bool"

text \<open>
  The table as the migration files declare it (\<open>004\<close>, with the status list of
  \<open>012\<close>): \<open>total_amount NOT NULL\<close> without a default, the \<open>CHECK\<close> on \<open>type\<close> and on
  \<open>status\<close>, and the two references to \<open>cards(card_id)\<close>; no \<open>card_id\<close> and no
  \<open>counter\<close> column.
\<close>

definition declared_constraints :: "db \<Rightarrow> transaction_row \<Rightarrow> bool" where
  "declared_constraints d row \<longleftrightarrow>
     t_total_amount row \<noteq> None \<and>
     t_type row \<in> set [''transfer'', ''payment'', ''refund'', ''topup'', ''withdrawal''] \<and>
     t_status row \<in> set [''PENDING'', ''PROCESSING'', ''COMPLETED'', ''FAILED'', ''CANCELLED'',
        ''FAILED_ACCOUNT_NOT_FOUND'', ''FAILED_ACCOUNT_NOT_ACTIVE'',
        ''FAILED_INSUFFICIENT_BALANCE'', ''FAILED_DEBIT_ERROR'', ''FAILED_ISO_CONVERSION'',
        ''FAILED_SETTLEMENT_ERROR''] \<and>
     t_from_card_id row \<in> set (map c_card_id (cards d)) \<and>
     t_to_card_id row \<in> set (map c_card_id (cards d))"

definition declared_schema :: tx_schema where
  "declared_schema = \<lparr>counter_columns = False, row_constraints = declared_constraints\<rparr>"

text \<open>
  The table the service code and its unit test are written for: it has the two columns
  and accepts the rows \<open>storeTransaction\<close> inserts.
\<close>

definition assumed_schema :: tx_schema where
  "assumed_schema = \<lparr>counter_columns = True, row_constraints = (\<lambda>d row. True)\<rparr>"

text \<open>
  A database transaction (\<open>*sql.Tx\<close>): the state its statements see and change, and
  the row locks it has taken with \<open>SELECT ... FOR UPDATE\<close>, in the order it took them,
  each as the identifier asked for and the \<open>id\<close> of the row locked.
\<close>

record sql_tx =
  tx_db :: db
  tx_locks :: "(string \<times> string) list"

definition Begin :: "db \<Rightarrow> sql_tx" where
  "Begin d = \<lparr>tx_db = d, tx_locks = []\<rparr>"

definition Commit :: "sql_tx \<Rightarrow> db" where
  "Commit tx = tx_db tx"

section \<open>The ledger (\<open>ledger_service.go\<close>)\<close>

text \<open>\<open>models.Account\<close>, as \<open>lockAccount\<close> scans it.\<close>

record Account =
  ID :: string
  Balance :: int64
  Version :: int

text \<open>
  The row selected by
  \<open>WHERE card_id = $1 OR account_id = $1 OR id = $1 LIMIT 1\<close>: the first one that
  matches (a comparison with NULL does not match).
\<close>

definition find_account :: "db \<Rightarrow> string \<Rightarrow> account_row option" where
  "find_account d accountID =
     find (\<lambda>r. a_card_id r = Some accountID \<or> a_account_id r = Some accountID \<or> a_id r = accountID)
       (accounts d)"

definition lockAccount :: "sql_tx \<Rightarrow> string \<Rightarrow> (error + Account) \<times> sql_tx" where
  "lockAccount tx accountID =
     (case find_account (tx_db tx) accountID of
        None \<Rightarrow> (Inl ErrNoRows, tx)
      | Some r \<Rightarrow>
          (Inr \<lparr>ID = a_id r, Balance = a_balance r, Version = a_version r\<rparr>,
           tx\<lparr>tx_locks := tx_locks tx @ [(accountID, a_id r)]\<rparr>))"

definition appendPaymentState :: "sql_tx \<Rightarrow> string \<Rightarrow> string \<Rightarrow> error option \<times> sql_tx" where
  "appendPaymentState tx transactionID state =
     (None, tx\<lparr>tx_db := (tx_db tx)\<lparr>payment_states :=
        payment_states (tx_db tx) @ [(transactionID, state)]\<rparr>\<rparr>)"

text \<open>
  The insert into \<open>ledger_entries\<close>. The table declares
  \<open>account_id REFERENCES accounts(id)\<close> and
  \<open>CHECK (entry_type IN ('DEBIT', 'CREDIT'))\<close>; a row that breaks either is refused.
\<close>

definition createLedgerEntry ::
  "sql_tx \<Rightarrow> string \<Rightarrow> string \<Rightarrow> int64 \<Rightarrow> string \<Rightarrow> int64 \<Rightarrow> error option \<times> sql_tx" where
  "createLedgerEntry tx transactionID accountID amount entryType balance =
     (if accountID \<notin> set (map a_id (accounts (tx_db tx))) then
        (Some (ErrDb ''ledger_entries_account_id_fkey''), tx)
      else if entryType \<noteq> ''DEBIT'' \<and> entryType \<noteq> ''CREDIT'' then
        (Some (ErrDb ''ledger_entries_entry_type_check''), tx)
      else
        (None, tx\<lparr>tx_db := (tx_db tx)\<lparr>ledger_entries := ledger_entries (tx_db tx) @
           [\<lparr>le_transaction_id = transactionID, le_account_id = accountID, le_amount = amount,
             le_entry_type = entryType, le_balance = balance\<rparr>]\<rparr>\<rparr>))"

text \<open>
  \<open>UPDATE accounts SET balance = $1, version = version + 1 WHERE id = $3 AND version = $4\<close>:
  what it does to one row, and the statement, which returns the number of rows it
  changed.
\<close>

definition update_row :: "string \<Rightarrow> int \<Rightarrow> int64 \<Rightarrow> account_row \<Rightarrow> account_row" where
  "update_row accountID version newBalance r =
     (if a_id r = accountID \<and> a_version r = version
      then r\<lparr>a_balance := newBalance, a_version := a_version r + 1\<rparr> else r)"

definition exec_update_accounts :: "sql_tx \<Rightarrow> string \<Rightarrow> int64 \<Rightarrow> int \<Rightarrow> nat \<times> sql_tx" where
  "exec_update_accounts tx accountID newBalance version =
     (length (filter (\<lambda>r. a_id r = accountID \<and> a_version r = version) (accounts (tx_db tx))),
      tx\<lparr>tx_db := (tx_db tx)\<lparr>accounts :=
        map (update_row accountID version newBalance) (accounts (tx_db tx))\<rparr>\<rparr>)"

definition updateAccountBalance ::
  "sql_tx \<Rightarrow> string \<Rightarrow> int64 \<Rightarrow> int \<Rightarrow> error option \<times> sql_tx" where
  "updateAccountBalance tx accountID newBalance version =
     (case exec_update_accounts tx accountID newBalance version of
        (rowsAffected, tx') \<Rightarrow>
          if rowsAffected = 0
          then (Some (ErrMsg (''optimistic lock failed for account '' @ accountID)), tx')
          else (None, tx'))"

definition TransferTx ::
  "sql_tx \<Rightarrow> string \<Rightarrow> string \<Rightarrow> string \<Rightarrow> int64 \<Rightarrow> error option \<times> sql_tx" where
  "TransferTx tx fromAccountID toAccountID transactionID amount =
     (let (firstLock, secondLock) =
            (if fromAccountID > toAccountID then (toAccountID, fromAccountID)
             else (fromAccountID, toAccountID))
      in case lockAccount tx firstLock of
        (Inl err, tx1) \<Rightarrow> (Some err, tx1)
      | (Inr first, tx1) \<Rightarrow>
      (case lockAccount tx1 secondLock of
        (Inl err, tx2) \<Rightarrow> (Some err, tx2)
      | (Inr second, tx2) \<Rightarrow>
      (let (fromAccount, toAccount) =
             (if firstLock \<noteq> fromAccountID then (second, first) else (first, second))
       in if Balance fromAccount <s amount then (Some (ErrMsg ''insufficient balance''), tx2)
       else
      (case createLedgerEntry tx2 transactionID (ID fromAccount) (- amount) ''DEBIT''
              (Balance fromAccount - amount) of
        (Some err, tx3) \<Rightarrow> (Some err, tx3)
      | (None, tx3) \<Rightarrow>
      (case createLedgerEntry tx3 transactionID (ID toAccount) amount ''CREDIT''
              (Balance toAccount + amount) of
        (Some err, tx4) \<Rightarrow> (Some err, tx4)
      | (None, tx4) \<Rightarrow>
      (case updateAccountBalance tx4 (ID fromAccount) (Balance fromAccount - amount)
              (Version fromAccount) of
        (Some err, tx5) \<Rightarrow> (Some err, tx5)
      | (None, tx5) \<Rightarrow>
      (case updateAccountBalance tx5 (ID toAccount) (Balance toAccount + amount)
              (Version toAccount) of
        (Some err, tx6) \<Rightarrow> (Some err, tx6)
      | (None, tx6) \<Rightarrow> (None, tx6))))))))"

text \<open>
  \<open>Transfer\<close> runs \<open>TransferTx\<close> in a transaction of its own. The deferred
  \<open>tx.Rollback()\<close> restores the state the transaction began with on every path that
  returns before \<open>tx.Commit()\<close>.
\<close>

definition Transfer :: "db \<Rightarrow> string \<Rightarrow> string \<Rightarrow> string \<Rightarrow> int64 \<Rightarrow> error option \<times> db" where
  "Transfer d fromAccountID toAccountID transactionID amount =
     (let tx = Begin d in
      case appendPaymentState tx transactionID ''PENDING'' of
        (Some err, _) \<Rightarrow> (Some err, d)
      | (None, tx1) \<Rightarrow>
      (case TransferTx tx1 fromAccountID toAccountID transactionID amount of
        (Some err, tx2) \<Rightarrow>
          (case appendPaymentState tx2 transactionID ''FAILED'' of (_, _) \<Rightarrow> (Some err, d))
      | (None, tx2) \<Rightarrow>
      (case appendPaymentState tx2 transactionID ''SUCCESS'' of
        (Some err, _) \<Rightarrow> (Some err, d)
      | (None, tx3) \<Rightarrow> (None, Commit tx3))))"

text \<open>The entries recorded under a transaction identifier, and the sum of their amounts.\<close>

definition entries_of :: "db \<Rightarrow> string \<Rightarrow> ledger_row list" where
  "entries_of d transactionID = filter (\<lambda>e. le_transaction_id e = transactionID) (ledger_entries d)"

definition entry_sum :: "db \<Rightarrow> string \<Rightarrow> int64" where
  "entry_sum d transactionID = sum_list (map le_amount (entries_of d transactionID))"

section \<open>The key registry (\<open>hsm\<close> package)\<close>

text \<open>
  \<open>crypto/sha256\<close> and \<open>crypto/rsa\<close> are not part of the repository; the
  functions of them that \<open>SignData\<close> and \<open>VerifySignature\<close> call are parameters of
  the model. \<open>rsa.VerifyPKCS1v15\<close> returns an error for a signature it rejects.
\<close>

record ('pub, 'priv) rsa_lib =
  Sum256 :: "byte list \<Rightarrow> byte list"
  SignPKCS1v15 :: "'priv \<Rightarrow> byte list \<Rightarrow> error + byte list"
  VerifyPKCS1v15 :: "'pub \<Rightarrow> byte list \<Rightarrow> byte list \<Rightarrow> error option"

record ('pub, 'priv) KeyPair =
  ID_kp :: string
  PublicKey :: 'pub
  PrivateKey :: 'priv
  CreatedAt_kp :: int
  ExpiresAt :: int
  IsActive :: bool

text \<open>
  \<open>HSMServer\<close>: the registry \<open>keys\<close> is a Go map from key identifier to key pair. The
  other fields (master key, key store path, audit logger) are not read by the two
  operations below.
\<close>

record ('pub, 'priv) HSMServer =
  keys :: "string \<rightharpoonup> ('pub, 'priv) KeyPair"

definition SignData ::
  "('pub, 'priv) rsa_lib \<Rightarrow> ('pub, 'priv) HSMServer \<Rightarrow> string \<Rightarrow> byte list \<Rightarrow> error + byte list" where
  "SignData lib h keyID data =
     (case keys h keyID of
        None \<Rightarrow> Inl (ErrMsg (''key '' @ keyID @ '' not found''))
      | Some keyPair \<Rightarrow>
          if \<not> IsActive keyPair then Inl (ErrMsg (''key '' @ keyID @ '' is not active''))
          else (case SignPKCS1v15 lib (PrivateKey keyPair) (Sum256 lib data) of
                  Inl err \<Rightarrow> Inl (ErrMsg (''failed to sign data: '' @ error_text err))
                | Inr signature \<Rightarrow> Inr signature))"

definition VerifySignature ::
  "('pub, 'priv) rsa_lib \<Rightarrow> ('pub, 'priv) HSMServer \<Rightarrow> string \<Rightarrow> byte list \<Rightarrow> byte list \<Rightarrow>
     bool \<times> error option" where
  "VerifySignature lib h keyID data signature =
     (case keys h keyID of
        None \<Rightarrow> (False, Some (ErrMsg (''key '' @ keyID @ '' not found'')))
      | Some keyPair \<Rightarrow>
          (case VerifyPKCS1v15 lib (PublicKey keyPair) (Sum256 lib data) signature of
             Some err \<Rightarrow> (False, None)
           | None \<Rightarrow> (True, None)))"

text \<open>
  Deactivation, as \<open>RotateKeys\<close> does it (\<open>keyPair.IsActive = false\<close> on the registered
  key pair): the entry stays in the registry with its key material.
\<close>

definition deactivate :: "('pub, 'priv) HSMServer \<Rightarrow> string \<Rightarrow> ('pub, 'priv) HSMServer" where
  "deactivate h keyID =
     (case keys h keyID of
        None \<Rightarrow> h
      | Some keyPair \<Rightarrow> h\<lparr>keys := (keys h)(keyID \<mapsto> keyPair\<lparr>IsActive := False\<rparr>)\<rparr>)"

section \<open>The transaction service (\<open>transaction_service.go\<close>)\<close>

text \<open>
  A request is modelled from the decoded \<open>Transaction\<close> on; reading and decoding the
  HTTP body come before. \<open>CreatedAt\<close> and the clock are Unix seconds. The audit log,
  the settlement queue and the notification do not touch the store and are left out.
\<close>

record Transaction =
  Version_tx :: byte
  TxID :: string
  Timestamp :: int64
  CardID :: string
  MerchantID :: string
  Amount :: int64
  Currency :: string
  Counter :: uint32
  TxType :: string
  Signature :: string
  Narration :: string
  Status :: string
  CreatedAt :: int64

text \<open>
  \<open>encoding/hex\<close>, \<open>crypto/hmac\<close>, \<open>crypto/sha256\<close> and \<open>unicode/utf8\<close> are
  parameters: \<open>DecodeString\<close> is \<open>hex.DecodeString\<close>, \<open>hmac_sha256_hex key data\<close> is
  the hex encoding of the HMAC-SHA256 of \<open>data\<close> under \<open>key\<close>, and
  \<open>RuneCountInString\<close> is \<open>utf8.RuneCountInString\<close>, the number of runes of a string.
\<close>

record std_lib =
  DecodeString :: "string \<Rightarrow> error + byte list"
  hmac_sha256_hex :: "byte list \<Rightarrow> byte list \<Rightarrow> string"
  RuneCountInString :: "string \<Rightarrow> nat"

text \<open>
  \<open>ValidateStruct\<close> runs the \<open>validate\<close> tags of \<open>Transaction\<close>: \<open>required\<close> (not the
  zero value), \<open>gt=0\<close>, \<open>len=3\<close> (three runes, as the validator counts a string) and
  \<open>oneof=DEBIT CREDIT\<close>. It is true when the validator returns nil.
\<close>

definition ValidateStruct :: "std_lib \<Rightarrow> Transaction \<Rightarrow> bool" where
  "ValidateStruct lib tx \<longleftrightarrow>
     TxID tx \<noteq> [] \<and> Timestamp tx \<noteq> 0 \<and> CardID tx \<noteq> [] \<and> MerchantID tx \<noteq> [] \<and>
     Amount tx \<noteq> 0 \<and> 0 <s Amount tx \<and>
     Currency tx \<noteq> [] \<and> RuneCountInString lib (Currency tx) = 3 \<and>
     Counter tx \<noteq> 0 \<and> 0 < Counter tx \<and>
     TxType tx \<noteq> [] \<and> (TxType tx = ''DEBIT'' \<or> TxType tx = ''CREDIT'') \<and>
     Signature tx \<noteq> []"

definition validateAccountInternal :: "db \<Rightarrow> string \<Rightarrow> error option" where
  "validateAccountInternal d cardID =
     (case find (\<lambda>r. a_card_id r = Some cardID) (accounts d) of
        None \<Rightarrow> Some (ErrMsg ''account not found'')
      | Some r \<Rightarrow>
          (case a_status r of
             None \<Rightarrow> Some (ErrMsg ''account validation failed'')
           | Some status \<Rightarrow>
               if status \<noteq> ''ACTIVE'' then Some (ErrMsg ''account not active'') else None))"

definition checkSufficientBalanceInternal :: "db \<Rightarrow> string \<Rightarrow> int64 \<Rightarrow> error option" where
  "checkSufficientBalanceInternal d cardID amount =
     (case find (\<lambda>r. a_card_id r = Some cardID) (accounts d) of
        None \<Rightarrow> Some (ErrMsg ''account not found'')
      | Some r \<Rightarrow>
          (case a_status r of
             None \<Rightarrow> Some (ErrMsg ''balance check failed'')
           | Some status \<Rightarrow>
               if status \<noteq> ''ACTIVE'' then Some (ErrMsg ''account not active'')
               else if a_balance r <s amount then Some (ErrMsg ''insufficient balance'')
               else None))"

definition validateTransaction :: "db \<Rightarrow> int64 \<Rightarrow> Transaction \<Rightarrow> error option" where
  "validateTransaction d now tx =
     (if TxID tx = [] then Some (ErrMsg ''transaction ID is required'')
      else if CardID tx = [] then Some (ErrMsg ''card ID is required'')
      else case validateAccountInternal d (CardID tx) of
        Some err \<Rightarrow> Some err
      | None \<Rightarrow>
      if MerchantID tx = [] then Some (ErrMsg ''merchant ID is required'')
      else if Amount tx \<le>s 0 then Some (ErrMsg ''amount must be positive'')
      else case (if TxType tx = ''DEBIT''
                 then checkSufficientBalanceInternal d (CardID tx) (Amount tx) else None) of
        Some err \<Rightarrow> Some err
      | None \<Rightarrow>
      if Currency tx = [] then Some (ErrMsg ''currency is required'')
      else if Counter tx = 0 then Some (ErrMsg ''counter is required'')
      else if Signature tx = [] then Some (ErrMsg ''signature is required'')
      else if now + 60 <s Timestamp tx then Some (ErrMsg ''transaction timestamp is in the future'')
      else if Timestamp tx <s now - 86400 * 7
        then Some (ErrMsg ''transaction timestamp is too old (>7 days)'')
      else None)"

text \<open>
  \<open>int64ToBytes\<close> and \<open>uint32ToBytes\<close> fill the slice from its last byte: the low
  byte, then the value shifted right by eight bits (arithmetically for \<open>int64\<close>).
\<close>

fun int64_bytes :: "nat \<Rightarrow> int64 \<Rightarrow> byte list" where
  "int64_bytes 0 n = []"
| "int64_bytes (Suc k) n = int64_bytes k (signed_drop_bit 8 n) @ [ucast (n AND 0xff)]"

fun uint32_bytes :: "nat \<Rightarrow> uint32 \<Rightarrow> byte list" where
  "uint32_bytes 0 n = []"
| "uint32_bytes (Suc k) n = uint32_bytes k (drop_bit 8 n) @ [ucast (n AND 0xff)]"

definition int64ToBytes :: "int64 \<Rightarrow> byte list" where
  "int64ToBytes n = int64_bytes 8 n"

definition uint32ToBytes :: "uint32 \<Rightarrow> byte list" where
  "uint32ToBytes n = uint32_bytes 4 n"

definition bytes_of :: "string \<Rightarrow> byte list" where
  "bytes_of s = map (\<lambda>c. of_nat (of_char c)) s"

definition serializeTransaction :: "Transaction \<Rightarrow> byte list" where
  "serializeTransaction tx =
     [Version_tx tx] @ bytes_of (TxID tx) @ int64ToBytes (Timestamp tx) @ bytes_of (CardID tx) @
     bytes_of (MerchantID tx) @ int64ToBytes (Amount tx) @ bytes_of (Currency tx) @
     uint32ToBytes (Counter tx) @ bytes_of (TxType tx)"

definition getCardAuthKey :: "std_lib \<Rightarrow> db \<Rightarrow> string \<Rightarrow> error + byte list" where
  "getCardAuthKey lib d cardID =
     (case find (\<lambda>c. c_card_id c = cardID) (cards d) of
        None \<Rightarrow> Inl ErrNoRows
      | Some c \<Rightarrow> DecodeString lib (c_cak c))"

definition verifySignature :: "std_lib \<Rightarrow> db \<Rightarrow> Transaction \<Rightarrow> error option" where
  "verifySignature lib d tx =
     (case getCardAuthKey lib d (CardID tx) of
        Inl err \<Rightarrow> Some (ErrMsg (''failed to get card keys: '' @ error_text err))
      | Inr cak \<Rightarrow>
          (let data = serializeTransaction tx;
               expectedSig = hmac_sha256_hex lib cak data
           in if expectedSig \<noteq> Signature tx then Some (ErrMsg ''signature mismatch'') else None))"

text \<open>
  \<open>checkDoubleSpending\<close>: is there a row of \<open>transactions\<close> with this \<open>card_id\<close> and
  \<open>counter\<close>, and is the counter above \<open>COALESCE(MAX(counter), 0)\<close> over the rows of
  this \<open>card_id\<close> (\<open>MAX\<close> skips NULL). The counters are unsigned. On a table without
  the two columns the first query fails and its error is returned.
\<close>

definition checkDoubleSpending :: "tx_schema \<Rightarrow> db \<Rightarrow> Transaction \<Rightarrow> error option" where
  "checkDoubleSpending sch d tx =
     (if \<not> counter_columns sch then Some (ErrDb ''column card_id does not exist'')
      else
      let exists = list_ex (\<lambda>row. t_card_id row = Some (CardID tx) \<and> t_counter row = Some (Counter tx))
                     (transactions d)
      in if exists then Some (ErrMsg ''counter already used'')
      else
        (let maxCounter = fold max
               (List.map_filter t_counter
                  (filter (\<lambda>row. t_card_id row = Some (CardID tx)) (transactions d))) 0
         in if Counter tx \<le> maxCounter then Some (ErrMsg ''counter not incrementing'') else None))"

text \<open>
  The insert of \<open>storeTransaction\<close> and \<open>storeTransactionTx\<close>. It names nine columns:
  \<open>total_amount\<close>, \<open>card_id\<close> and \<open>counter\<close> are not among them and stay NULL. The
  row is refused when the constraints of the layout do not accept it or when its
  \<open>transaction_id\<close>, declared \<open>UNIQUE\<close>, is already in the table.
\<close>

definition inserted_row :: "Transaction \<Rightarrow> transaction_row" where
  "inserted_row tx =
     \<lparr>t_transaction_id = TxID tx, t_from_card_id = CardID tx, t_to_card_id = MerchantID tx,
      t_amount = Amount tx, t_currency = Currency tx, t_type = TxType tx,
      t_signature = Signature tx, t_status = Status tx,
      t_total_amount = None, t_card_id = None, t_counter = None\<rparr>"

definition insert_transaction :: "tx_schema \<Rightarrow> db \<Rightarrow> Transaction \<Rightarrow> error option \<times> db" where
  "insert_transaction sch d tx =
     (if \<not> row_constraints sch d (inserted_row tx) then
        (Some (ErrDb ''transactions: constraint violated''), d)
      else if TxID tx \<in> set (map t_transaction_id (transactions d)) then
        (Some (ErrDb ''transactions_transaction_id_key''), d)
      else (None, d\<lparr>transactions := transactions d @ [inserted_row tx]\<rparr>))"

text \<open>
  Both store functions set \<open>Status\<close> and \<open>CreatedAt\<close> through the pointer before the
  insert, so the caller's transaction is changed whether the insert succeeds or not.
\<close>

definition storeTransaction ::
  "tx_schema \<Rightarrow> db \<Rightarrow> int64 \<Rightarrow> Transaction \<Rightarrow> error option \<times> db \<times> Transaction" where
  "storeTransaction sch d now tx =
     (let tx' = tx\<lparr>Status := ''COMPLETED'', CreatedAt := now\<rparr>
      in case insert_transaction sch d tx' of (err, d') \<Rightarrow> (err, d', tx'))"

definition storeTransactionTx ::
  "tx_schema \<Rightarrow> sql_tx \<Rightarrow> int64 \<Rightarrow> Transaction \<Rightarrow> error option \<times> sql_tx \<times> Transaction" where
  "storeTransactionTx sch dbTx now tx =
     (let tx' = tx\<lparr>Status := ''COMPLETED'', CreatedAt := now\<rparr>
      in case insert_transaction sch (tx_db dbTx) tx' of (err, d') \<Rightarrow> (err, dbTx\<lparr>tx_db := d'\<rparr>, tx'))"

definition processLedgerTransferTx :: "sql_tx \<Rightarrow> Transaction \<Rightarrow> error option \<times> sql_tx" where
  "processLedgerTransferTx dbTx tx =
     TransferTx dbTx (CardID tx) (MerchantID tx) (TxID tx) (Amount tx)"

definition processLedgerTransfer :: "db \<Rightarrow> Transaction \<Rightarrow> error option \<times> db" where
  "processLedgerTransfer d tx = Transfer d (CardID tx) (MerchantID tx) (TxID tx) (Amount tx)"

text \<open>
  The responses: an error with its HTTP status and message; the 200 answer to a
  transaction identifier that is already stored, with its \<open>success\<close> flag; the 201
  answer to a processed transaction; the answer of the batch with its two lists and the
  three counts of its summary.
\<close>

record batch_body =
  processed :: "Transaction list"
  failed :: "(string \<times> string) list"
  total :: nat
  succeeded :: nat
  failed_count :: nat

datatype response =
    HttpError nat string
  | AlreadyProcessed bool Transaction
  | Created Transaction
  | BatchDone batch_body

definition CreateTransaction ::
  "tx_schema \<Rightarrow> std_lib \<Rightarrow> db \<Rightarrow> int64 \<Rightarrow> Transaction \<Rightarrow> response \<times> db" where
  "CreateTransaction sch lib d now tx =
     (if \<not> ValidateStruct lib tx then (HttpError 400 ''Validation failed'', d)
      else case find (\<lambda>row. t_transaction_id row = TxID tx) (transactions d) of
        Some row \<Rightarrow> (AlreadyProcessed (t_status row = ''COMPLETED'') tx, d)
      | None \<Rightarrow>
      (case validateTransaction d now tx of
        Some err \<Rightarrow> (HttpError 400 (''Validation failed: '' @ error_text err), d)
      | None \<Rightarrow>
      (case verifySignature lib d tx of
        Some err \<Rightarrow> (HttpError 401 (''Signature verification failed: '' @ error_text err), d)
      | None \<Rightarrow>
      (let dbTx = Begin d in
       case processLedgerTransferTx dbTx tx of
        (Some err, _) \<Rightarrow> (HttpError 500 ''Failed to process transfer'', d)
      | (None, dbTx1) \<Rightarrow>
      (case storeTransactionTx sch dbTx1 now tx of
        (Some err, _, _) \<Rightarrow> (HttpError 500 ''Failed to store transaction'', d)
      | (None, dbTx2, tx') \<Rightarrow> (Created tx', Commit dbTx2))))))"

text \<open>
  The loop of \<open>BatchTransactions\<close> over the requests, with the store, the processed
  list and the failed list it has built so far. The clock is read once for the batch.
\<close>

fun batch_loop ::
  "tx_schema \<Rightarrow> std_lib \<Rightarrow> int64 \<Rightarrow> Transaction list \<Rightarrow> db \<Rightarrow> Transaction list \<Rightarrow> (string \<times> string) list \<Rightarrow>
     db \<times> Transaction list \<times> (string \<times> string) list" where
  "batch_loop sch lib now [] d ok bad = (d, ok, bad)"
| "batch_loop sch lib now (tx # txs) d ok bad =
     (case validateTransaction d now tx of
        Some err \<Rightarrow> batch_loop sch lib now txs d ok (bad @ [(TxID tx, error_text err)])
      | None \<Rightarrow>
      (case verifySignature lib d tx of
        Some err \<Rightarrow> batch_loop sch lib now txs d ok (bad @ [(TxID tx, ''Signature verification failed'')])
      | None \<Rightarrow>
      (case checkDoubleSpending sch d tx of
        Some err \<Rightarrow> batch_loop sch lib now txs d ok (bad @ [(TxID tx, ''Double spending detected'')])
      | None \<Rightarrow>
      (case processLedgerTransfer d tx of
        (Some err, d1) \<Rightarrow> batch_loop sch lib now txs d1 ok (bad @ [(TxID tx, ''Transfer failed'')])
      | (None, d1) \<Rightarrow>
      (case storeTransaction sch d1 now tx of
        (Some err, d2, tx') \<Rightarrow> batch_loop sch lib now txs d2 ok (bad @ [(TxID tx', ''Storage failed'')])
      | (None, d2, tx') \<Rightarrow> batch_loop sch lib now txs d2 (ok @ [tx']) bad)))))"

definition BatchTransactions ::
  "tx_schema \<Rightarrow> std_lib \<Rightarrow> db \<Rightarrow> int64 \<Rightarrow> Transaction list \<Rightarrow> response \<times> db" where
  "BatchTransactions sch lib d now txs =
     (if length txs = 0 then (HttpError 400 ''No transactions provided'', d)
      else if length txs > 100 then (HttpError 400 ''Batch size exceeds limit (100)'', d)
      else case batch_loop sch lib now txs d [] [] of
        (d', ok, bad) \<Rightarrow>
          (BatchDone \<lparr>processed = ok, failed = bad, total = length txs,
             succeeded = length ok, failed_count = length bad\<rparr>, d'))"

section \<open>Auxiliary definitions\<close>

text \<open>
  Abbreviations used in the statements and proofs below: the two entries of a transfer,
  the store once they are inserted, the rest of \<open>TransferTx\<close> after its locks, and the
  transaction as the store functions leave it.
\<close>

definition debit_entry :: "string \<Rightarrow> account_row \<Rightarrow> int64 \<Rightarrow> ledger_row" where
  "debit_entry txid s amt = \<lparr>le_transaction_id = txid, le_account_id = a_id s, le_amount = - amt,
     le_entry_type = ''DEBIT'', le_balance = a_balance s - amt\<rparr>"

definition credit_entry :: "string \<Rightarrow> account_row \<Rightarrow> int64 \<Rightarrow> ledger_row" where
  "credit_entry txid r amt = \<lparr>le_transaction_id = txid, le_account_id = a_id r, le_amount = amt,
     le_entry_type = ''CREDIT'', le_balance = a_balance r + amt\<rparr>"

definition posted :: "sql_tx \<Rightarrow> string \<Rightarrow> account_row \<Rightarrow> account_row \<Rightarrow> int64 \<Rightarrow> db" where
  "posted tx txid s r amt = (tx_db tx)\<lparr>ledger_entries := ledger_entries (tx_db tx) @ [debit_entry txid s amt, credit_entry txid r amt]\<rparr>"

definition post_locks :: "sql_tx \<Rightarrow> account_row \<Rightarrow> account_row \<Rightarrow> string \<Rightarrow> int64 \<Rightarrow> error option \<times> sql_tx" where
  "post_locks tx2 s r txid amt =
     (if a_balance s <s amt then (Some (ErrMsg ''insufficient balance''), tx2)
      else case updateAccountBalance (tx2\<lparr>tx_db := posted tx2 txid s r amt\<rparr>) (a_id s) (a_balance s - amt) (a_version s) of
         (Some err, tx5) \<Rightarrow> (Some err, tx5)
       | (None, tx5) \<Rightarrow> (case updateAccountBalance tx5 (a_id r) (a_balance r + amt) (a_version r) of
           (Some err, tx6) \<Rightarrow> (Some err, tx6) | (None, tx6) \<Rightarrow> (None, tx6)))"

text \<open>
  The lock order asked of a transfer between two identifiers, whichever is the source:
  the row of the lexically smaller identifier, then the row of the larger one, and
  nothing after an identifier that has no row. \<open>lock_pair\<close> is the same for two
  rows that are known.
\<close>

definition lock_trace :: "db \<Rightarrow> string \<Rightarrow> string \<Rightarrow> (string \<times> string) list" where
  "lock_trace d A B =
     (case find_account d (min A B) of
        None \<Rightarrow> []
      | Some lo \<Rightarrow> (min A B, a_id lo) #
          (case find_account d (max A B) of None \<Rightarrow> [] | Some hi \<Rightarrow> [(max A B, a_id hi)]))"

definition lock_pair ::
  "string \<Rightarrow> string \<Rightarrow> account_row \<Rightarrow> account_row \<Rightarrow> (string \<times> string) list" where
  "lock_pair f t s r = (if f > t then [(t, a_id r), (f, a_id s)] else [(f, a_id s), (t, a_id r)])"

text \<open>The sum of the amounts recorded under an identifier, read as integers.\<close>

definition entry_sum_int :: "db \<Rightarrow> string \<Rightarrow> int" where
  "entry_sum_int d transactionID = sum_list (map (\<lambda>e. sint (le_amount e)) (entries_of d transactionID))"

text \<open>
  A batch in which every transaction is processed on its own, as the specification
  words it: \<open>process_one\<close> takes one transaction through validation, signature,
  double-spend check, transfer and storage on the store it is given, and answers with
  the store it leaves and either the failed entry with its reason or the processed
  transaction; \<open>run_each\<close> does so for every transaction in turn, whatever the outcome
  of the ones before, each on the store the previous one left.
\<close>

definition process_one ::
  "tx_schema \<Rightarrow> std_lib \<Rightarrow> int64 \<Rightarrow> db \<Rightarrow> Transaction \<Rightarrow> db \<times> ((string \<times> string) + Transaction)" where
  "process_one sch lib now d tx =
     (case validateTransaction d now tx of
        Some err \<Rightarrow> (d, Inl (TxID tx, error_text err))
      | None \<Rightarrow>
      (case verifySignature lib d tx of
        Some err \<Rightarrow> (d, Inl (TxID tx, ''Signature verification failed''))
      | None \<Rightarrow>
      (case checkDoubleSpending sch d tx of
        Some err \<Rightarrow> (d, Inl (TxID tx, ''Double spending detected''))
      | None \<Rightarrow>
      (case processLedgerTransfer d tx of
        (Some err, d1) \<Rightarrow> (d1, Inl (TxID tx, ''Transfer failed''))
      | (None, d1) \<Rightarrow>
      (case storeTransaction sch d1 now tx of
        (Some err, d2, tx') \<Rightarrow> (d2, Inl (TxID tx, ''Storage failed''))
      | (None, d2, tx') \<Rightarrow> (d2, Inr tx'))))))"

fun run_each ::
  "tx_schema \<Rightarrow> std_lib \<Rightarrow> int64 \<Rightarrow> Transaction list \<Rightarrow> db \<Rightarrow>
     db \<times> ((string \<times> string) + Transaction) list" where
  "run_each sch lib now [] d = (d, [])"
| "run_each sch lib now (tx # txs) d =
     (case process_one sch lib now d tx of
        (d1, outcome) \<Rightarrow>
          (case run_each sch lib now txs d1 of (d2, outcomes) \<Rightarrow> (d2, outcome # outcomes)))"

text \<open>The processed transactions and the failed entries among a list of outcomes, in order.\<close>

fun processed_of :: "((string \<times> string) + Transaction) list \<Rightarrow> Transaction list" where
  "processed_of [] = []"
| "processed_of (Inl f # os) = processed_of os"
| "processed_of (Inr p # os) = p # processed_of os"

fun failed_of :: "((string \<times> string) + Transaction) list \<Rightarrow> (string \<times> string) list" where
  "failed_of [] = []"
| "failed_of (Inl f # os) = f # failed_of os"
| "failed_of (Inr p # os) = failed_of os"

definition stored :: "Transaction \<Rightarrow> int64 \<Rightarrow> Transaction" where
  "stored tx now = tx\<lparr>Status := ''COMPLETED'', CreatedAt := now\<rparr>"

section \<open>Concrete data\<close>

text \<open>
  A small store for concrete runs: account \<open>X\<close> holds 5000 minor units and account
  \<open>Y\<close> holds 1000, both at version 1, with no ledger entry and no transaction yet.
\<close>

definition demo_db :: db where
  "demo_db =
     \<lparr>accounts =
        [\<lparr>a_id = ''X'', a_card_id = Some ''card_X'', a_account_id = Some ''1234567890'',
          a_balance = 5000, a_version = 1, a_status = Some ''ACTIVE''\<rparr>,
         \<lparr>a_id = ''Y'', a_card_id = Some ''card_Y'', a_account_id = Some ''2345678901'',
          a_balance = 1000, a_version = 1, a_status = Some ''ACTIVE''\<rparr>],
      ledger_entries = [], payment_states = [], transactions = [],
      cards = [\<lparr>c_card_id = ''card_X'', c_cak = ''00''\<rparr>]\<rparr>"

text \<open>A toy instance of the library, for concrete runs: a signature is the key followed by the digest.\<close>

definition demo_rsa :: "(byte, byte) rsa_lib" where
  "demo_rsa = \<lparr>Sum256 = (\<lambda>data. data),
     SignPKCS1v15 = (\<lambda>priv hashed. Inr (priv # hashed)),
     VerifyPKCS1v15 = (\<lambda>pub hashed signature.
        if signature = pub # hashed then None else Some (ErrMsg ''crypto/rsa: verification error''))\<rparr>"

definition demo_hsm :: "(byte, byte) HSMServer" where
  "demo_hsm = \<lparr>keys = [''k1'' \<mapsto> \<lparr>ID_kp = ''k1'', PublicKey = 7, PrivateKey = 7, CreatedAt_kp = 0,
      ExpiresAt = 31536000, IsActive = True\<rparr>]\<rparr>"

text \<open>
  For concrete runs: a library whose MAC is the same string for every key and message
  and whose rune count is the length (right for ASCII strings), and a well-formed DEBIT request of 2000 minor units from the card of \<open>X\<close> to the card
  of \<open>Y\<close> with counter 1, parametrised by its identifier and time stamp.
\<close>

definition demo_lib :: std_lib where
  "demo_lib = \<lparr>DecodeString = (\<lambda>s. Inr []), hmac_sha256_hex = (\<lambda>key data. ''c0ffee''),
     RuneCountInString = length\<rparr>"

definition demo_tx :: "string \<Rightarrow> int64 \<Rightarrow> Transaction" where
  "demo_tx txid ts =
     \<lparr>Version_tx = 1, TxID = txid, Timestamp = ts, CardID = ''card_X'', MerchantID = ''card_Y'',
      Amount = 2000, Currency = ''NGN'', Counter = 1, TxType = ''DEBIT'', Signature = ''c0ffee'',
      Narration = [], Status = [], CreatedAt = 0\<rparr>"

text \<open>
  The rows of the concrete runs: the two accounts with given balances and version, the
  two ledger entries of a processed \<open>demo_tx\<close> with the balances they record, and the
  row \<open>storeTransaction\<close> inserts for it.
\<close>

definition demo_accounts :: "int64 \<Rightarrow> int64 \<Rightarrow> int \<Rightarrow> account_row list" where
  "demo_accounts x y v =
     [\<lparr>a_id = ''X'', a_card_id = Some ''card_X'', a_account_id = Some ''1234567890'',
       a_balance = x, a_version = v, a_status = Some ''ACTIVE''\<rparr>,
      \<lparr>a_id = ''Y'', a_card_id = Some ''card_Y'', a_account_id = Some ''2345678901'',
       a_balance = y, a_version = v, a_status = Some ''ACTIVE''\<rparr>]"

definition demo_entries :: "string \<Rightarrow> int64 \<Rightarrow> int64 \<Rightarrow> ledger_row list" where
  "demo_entries txid x y =
     [\<lparr>le_transaction_id = txid, le_account_id = ''X'', le_amount = - 2000,
       le_entry_type = ''DEBIT'', le_balance = x\<rparr>,
      \<lparr>le_transaction_id = txid, le_account_id = ''Y'', le_amount = 2000,
       le_entry_type = ''CREDIT'', le_balance = y\<rparr>]"

definition demo_row :: "string \<Rightarrow> transaction_row" where
  "demo_row txid =
     \<lparr>t_transaction_id = txid, t_from_card_id = ''card_X'', t_to_card_id = ''card_Y'',
      t_amount = 2000, t_currency = ''NGN'', t_type = ''DEBIT'', t_signature = ''c0ffee'',
      t_status = ''COMPLETED'', t_total_amount = None, t_card_id = None, t_counter = None\<rparr>"

text \<open>
  A store in which \<open>tx-1\<close> is recorded as completed: what \<open>CreateTransaction\<close> leaves
  of \<open>demo_db\<close> after \<open>demo_tx ''tx-1''\<close> in the assumed layout.
\<close>

definition demo_db1 :: db where
  "demo_db1 = demo_db\<lparr>accounts := demo_accounts 3000 3000 2,
     ledger_entries := demo_entries ''tx-1'' 3000 3000,
     transactions := [demo_row ''tx-1'']\<rparr>"

text \<open>
  A store of the declared layout in which \<open>tx-1\<close> is recorded: both cards are in
  \<open>cards\<close> and the row is one the declared table admits, of the kind
  \<open>ExternalBankTransfer\<close> inserts under a reference \<open>tx-1\<close> (type \<open>transfer\<close>,
  \<open>total_amount\<close> filled), with a given status.
\<close>

definition demo_declared_row :: "string \<Rightarrow> string \<Rightarrow> transaction_row" where
  "demo_declared_row txid status =
     \<lparr>t_transaction_id = txid, t_from_card_id = ''card_X'', t_to_card_id = ''card_Y'',
      t_amount = 2000, t_currency = ''NGN'', t_type = ''transfer'', t_signature = [],
      t_status = status, t_total_amount = Some 2000, t_card_id = None, t_counter = None\<rparr>"

definition demo_db2 :: "string \<Rightarrow> db" where
  "demo_db2 status = demo_db\<lparr>transactions := [demo_declared_row ''tx-1'' status],
     cards := [\<lparr>c_card_id = ''card_X'', c_cak = ''00''\<rparr>, \<lparr>c_card_id = ''card_Y'', c_cak = ''00''\<rparr>]\<rparr>"

text \<open>
  Requests that fail at one step each: one with a wrong signature, and one from the card
  of \<open>X\<close> to itself, whose transfer fails. Two batches of them with well-formed
  requests in between, and a store in which \<open>X\<close> holds 9000.
\<close>

definition demo_bad_signature :: "string \<Rightarrow> Transaction" where
  "demo_bad_signature txid = (demo_tx txid 1700000000)\<lparr>Signature := ''bad''\<rparr>"

definition demo_self :: "string \<Rightarrow> Transaction" where
  "demo_self txid = (demo_tx txid 1700000000)\<lparr>MerchantID := ''card_X''\<rparr>"

definition demo_batch_declared :: "Transaction list" where
  "demo_batch_declared =
     [demo_tx ''tx-a'' 1000000000, demo_bad_signature ''tx-b'',
      demo_tx ''tx-c'' 1700000000, demo_tx ''tx-d'' 1700000000]"

definition demo_batch_assumed :: "Transaction list" where
  "demo_batch_assumed =
     [demo_bad_signature ''tx-b'', demo_self ''tx-s'', demo_tx ''tx-1'' 1700000000,
      demo_tx ''tx-1'' 1700000000, demo_tx ''tx-2'' 1700000000]"

definition demo_db9 :: db where
  "demo_db9 = demo_db\<lparr>accounts := demo_accounts 9000 1000 1\<rparr>"


section \<open>The ledger: facts\<close>

lemma find_account_mem:
  "find_account d i = Some r \<Longrightarrow> r \<in> set (accounts d)"
  by (auto simp: find_account_def find_Some_iff)

lemma lockAccount_db [simp]: "tx_db (snd (lockAccount tx i)) = tx_db tx"
  by (simp add: lockAccount_def split: option.splits)

lemma lockAccount_None:
  "find_account (tx_db tx) i = None \<Longrightarrow> lockAccount tx i = (Inl ErrNoRows, tx)"
  by (simp add: lockAccount_def)

lemma lockAccount_Some:
  "find_account (tx_db tx) i = Some r \<Longrightarrow>
   lockAccount tx i = (Inr \<lparr>ID = a_id r, Balance = a_balance r, Version = a_version r\<rparr>,
      tx\<lparr>tx_locks := tx_locks tx @ [(i, a_id r)]\<rparr>)"
  by (simp add: lockAccount_def)

lemma createLedgerEntry_ok:
  "r \<in> set (accounts (tx_db tx)) \<Longrightarrow> ty = ''DEBIT'' \<or> ty = ''CREDIT'' \<Longrightarrow>
   createLedgerEntry tx txid (a_id r) amt ty bal =
     (None, tx\<lparr>tx_db := (tx_db tx)\<lparr>ledger_entries := ledger_entries (tx_db tx) @
           [\<lparr>le_transaction_id = txid, le_account_id = a_id r, le_amount = amt,
             le_entry_type = ty, le_balance = bal\<rparr>]\<rparr>\<rparr>)"
  by (auto simp: createLedgerEntry_def)

lemma TransferTx_unfold_le:
  assumes s: "find_account (tx_db tx) f = Some s" and r: "find_account (tx_db tx) t = Some r"
    and le: "\<not> f > t"
  shows "TransferTx tx f t txid amt =
     post_locks (tx\<lparr>tx_locks := tx_locks tx @ [(f, a_id s), (t, a_id r)]\<rparr>) s r txid amt"
proof -
  have ms: "s \<in> set (accounts (tx_db tx))" and mr: "r \<in> set (accounts (tx_db tx))"
    using s r by (auto dest: find_account_mem)
  let ?tx1 = "tx\<lparr>tx_locks := tx_locks tx @ [(f, a_id s)]\<rparr>"
  let ?tx2 = "tx\<lparr>tx_locks := tx_locks tx @ [(f, a_id s), (t, a_id r)]\<rparr>"
  have l1: "lockAccount tx f = (Inr \<lparr>ID = a_id s, Balance = a_balance s, Version = a_version s\<rparr>, ?tx1)"
    using s by (simp add: lockAccount_Some)
  have l2: "lockAccount ?tx1 t = (Inr \<lparr>ID = a_id r, Balance = a_balance r, Version = a_version r\<rparr>, ?tx2)"
    using r by (simp add: lockAccount_Some)
  have c1: "createLedgerEntry ?tx2 txid (a_id s) (- amt) ''DEBIT'' (a_balance s - amt) =
      (None, ?tx2\<lparr>tx_db := (tx_db tx)\<lparr>ledger_entries := ledger_entries (tx_db tx) @ [debit_entry txid s amt]\<rparr>\<rparr>)"
    using ms by (simp add: createLedgerEntry_ok debit_entry_def)
  have c2: "createLedgerEntry (?tx2\<lparr>tx_db := (tx_db tx)\<lparr>ledger_entries := ledger_entries (tx_db tx) @ [debit_entry txid s amt]\<rparr>\<rparr>) txid (a_id r) amt ''CREDIT'' (a_balance r + amt) =
      (None, ?tx2\<lparr>tx_db := posted ?tx2 txid s r amt\<rparr>)"
    using mr by (simp add: createLedgerEntry_ok credit_entry_def posted_def)
  show ?thesis
    unfolding TransferTx_def post_locks_def using le
    by (simp add: l1 l2 c1 c2 split: prod.splits option.splits)
qed

lemma TransferTx_unfold_gt:
  assumes s: "find_account (tx_db tx) f = Some s" and r: "find_account (tx_db tx) t = Some r"
    and gt: "f > t"
  shows "TransferTx tx f t txid amt =
     post_locks (tx\<lparr>tx_locks := tx_locks tx @ [(t, a_id r), (f, a_id s)]\<rparr>) s r txid amt"
proof -
  have ms: "s \<in> set (accounts (tx_db tx))" and mr: "r \<in> set (accounts (tx_db tx))"
    using s r by (auto dest: find_account_mem)
  let ?tx1 = "tx\<lparr>tx_locks := tx_locks tx @ [(t, a_id r)]\<rparr>"
  let ?tx2 = "tx\<lparr>tx_locks := tx_locks tx @ [(t, a_id r), (f, a_id s)]\<rparr>"
  have l1: "lockAccount tx t = (Inr \<lparr>ID = a_id r, Balance = a_balance r, Version = a_version r\<rparr>, ?tx1)"
    using r by (simp add: lockAccount_Some)
  have l2: "lockAccount ?tx1 f = (Inr \<lparr>ID = a_id s, Balance = a_balance s, Version = a_version s\<rparr>, ?tx2)"
    using s by (simp add: lockAccount_Some)
  have c1: "createLedgerEntry ?tx2 txid (a_id s) (- amt) ''DEBIT'' (a_balance s - amt) =
      (None, ?tx2\<lparr>tx_db := (tx_db tx)\<lparr>ledger_entries := ledger_entries (tx_db tx) @ [debit_entry txid s amt]\<rparr>\<rparr>)"
    using ms by (simp add: createLedgerEntry_ok debit_entry_def)
  have c2: "createLedgerEntry (?tx2\<lparr>tx_db := (tx_db tx)\<lparr>ledger_entries := ledger_entries (tx_db tx) @ [debit_entry txid s amt]\<rparr>\<rparr>) txid (a_id r) amt ''CREDIT'' (a_balance r + amt) =
      (None, ?tx2\<lparr>tx_db := posted ?tx2 txid s r amt\<rparr>)"
    using mr by (simp add: createLedgerEntry_ok credit_entry_def posted_def)
  have ne: "t \<noteq> f" using gt by auto
  show ?thesis
    unfolding TransferTx_def post_locks_def using gt ne
    by (simp add: l1 l2 c1 c2 split: prod.splits option.splits)
qed

lemma TransferTx_unfold:
  assumes "find_account (tx_db tx) f = Some s" and "find_account (tx_db tx) t = Some r"
  shows "TransferTx tx f t txid amt =
     post_locks (tx\<lparr>tx_locks := tx_locks tx @ lock_pair f t s r\<rparr>) s r txid amt"
  using assms TransferTx_unfold_gt [OF assms] TransferTx_unfold_le [OF assms]
  by (cases "f > t") (simp_all add: lock_pair_def)

lemma TransferTx_first_missing:
  assumes "find_account (tx_db tx) (min f t) = None"
  shows "TransferTx tx f t txid amt = (Some ErrNoRows, tx)"
proof (cases "f > t")
  case True
  then have "min f t = t" by simp
  with assms True show ?thesis by (simp add: TransferTx_def lockAccount_None)
next
  case False
  then have "min f t = f" by simp
  with assms False show ?thesis by (simp add: TransferTx_def lockAccount_None)
qed

lemma TransferTx_second_missing:
  assumes "find_account (tx_db tx) (min f t) = Some x" "find_account (tx_db tx) (max f t) = None"
  shows "TransferTx tx f t txid amt = (Some ErrNoRows, tx\<lparr>tx_locks := tx_locks tx @ [(min f t, a_id x)]\<rparr>)"
proof (cases "f > t")
  case True
  then have "min f t = t" "max f t = f" by simp_all
  with assms True show ?thesis by (simp add: TransferTx_def lockAccount_None lockAccount_Some)
next
  case False
  then have "min f t = f" "max f t = t" by simp_all
  with assms False show ?thesis by (simp add: TransferTx_def lockAccount_None lockAccount_Some)
qed

lemma update_row_miss:
  "\<forall>x\<in>set xs. \<not> (a_id x = i \<and> a_version x = v) \<Longrightarrow> map (update_row i v nb) xs = xs"
  by (induction xs) (auto simp: update_row_def)

lemma updateAccountBalance_hit:
  assumes "x \<in> set (accounts (tx_db tx))" "a_id x = i" "a_version x = v"
  shows "updateAccountBalance tx i nb v =
     (None, tx\<lparr>tx_db := (tx_db tx)\<lparr>accounts := map (update_row i v nb) (accounts (tx_db tx))\<rparr>\<rparr>)"
proof -
  have "filter (\<lambda>r. a_id r = i \<and> a_version r = v) (accounts (tx_db tx)) \<noteq> []"
    using assms by (auto simp: filter_empty_conv)
  then show ?thesis
    by (simp add: updateAccountBalance_def exec_update_accounts_def)
qed

lemma updateAccountBalance_miss:
  assumes "\<forall>x\<in>set (accounts (tx_db tx)). \<not> (a_id x = i \<and> a_version x = v)"
  shows "updateAccountBalance tx i nb v =
     (Some (ErrMsg (''optimistic lock failed for account '' @ i)), tx)"
proof -
  have "filter (\<lambda>r. a_id r = i \<and> a_version r = v) (accounts (tx_db tx)) = []"
    using assms by (auto simp: filter_empty_conv)
  then show ?thesis
    using update_row_miss [OF assms, of nb]
    by (simp add: updateAccountBalance_def exec_update_accounts_def)
qed

lemma updateAccountBalance_None_iff:
  "fst (updateAccountBalance tx i nb v) = None \<longleftrightarrow>
     (\<exists>x\<in>set (accounts (tx_db tx)). a_id x = i \<and> a_version x = v)"
  by (auto simp: updateAccountBalance_def exec_update_accounts_def filter_empty_conv)

lemma update_row_stale1:
  "\<not> (a_id (update_row i v nb x) = i \<and> a_version (update_row i v nb x) = v)"
  by (simp add: update_row_def)

lemma update_row_stale:
  "\<forall>x\<in>set (map (update_row i v nb) xs). \<not> (a_id x = i \<and> a_version x = v)"
  using update_row_stale1 by auto

lemma update_row_id [simp]: "a_id (update_row i v nb x) = a_id x"
  by (simp add: update_row_def)

lemma post_locks_self:
  assumes m: "s \<in> set (accounts (tx_db tx))" and b: "\<not> a_balance s <s amt"
  shows "post_locks tx s s txid amt =
    (Some (ErrMsg (''optimistic lock failed for account '' @ a_id s)),
     tx\<lparr>tx_db := (posted tx txid s s amt)\<lparr>accounts :=
        map (update_row (a_id s) (a_version s) (a_balance s - amt)) (accounts (tx_db tx))\<rparr>\<rparr>)"
proof -
  let ?tx4 = "tx\<lparr>tx_db := posted tx txid s s amt\<rparr>"
  let ?tx5 = "tx\<lparr>tx_db := (posted tx txid s s amt)\<lparr>accounts :=
        map (update_row (a_id s) (a_version s) (a_balance s - amt)) (accounts (tx_db tx))\<rparr>\<rparr>"
  have m4: "s \<in> set (accounts (tx_db ?tx4))" using m by (simp add: posted_def)
  have u1: "updateAccountBalance ?tx4 (a_id s) (a_balance s - amt) (a_version s) = (None, ?tx5)"
    using updateAccountBalance_hit [OF m4 refl refl, of "a_balance s - amt"]
    by (simp add: posted_def)
  have "\<forall>x\<in>set (accounts (tx_db ?tx5)). \<not> (a_id x = a_id s \<and> a_version x = a_version s)"
    using update_row_stale [of "a_id s" "a_version s"] by simp
  from updateAccountBalance_miss [OF this]
  have u2: "updateAccountBalance ?tx5 (a_id s) (a_balance s + amt) (a_version s) =
     (Some (ErrMsg (''optimistic lock failed for account '' @ a_id s)), ?tx5)" .
  show ?thesis unfolding post_locks_def using b
    by (simp only: u1 u2 if_False prod.case option.case)
qed

lemma post_locks_success:
  assumes "post_locks tx s r txid amt = (None, tx')"
  shows "\<not> a_balance s <s amt \<and>
     tx' = tx\<lparr>tx_db := (posted tx txid s r amt)\<lparr>accounts :=
        map (update_row (a_id r) (a_version r) (a_balance r + amt))
          (map (update_row (a_id s) (a_version s) (a_balance s - amt)) (accounts (tx_db tx)))\<rparr>\<rparr>"
  using assms
  by (auto simp: post_locks_def updateAccountBalance_def exec_update_accounts_def posted_def
      split: if_splits prod.splits option.splits)

lemma post_locks_insufficient:
  "a_balance s <s amt \<Longrightarrow> post_locks tx s r txid amt = (Some (ErrMsg ''insufficient balance''), tx)"
  by (simp add: post_locks_def)

lemma TransferTx_success:
  assumes ok: "TransferTx tx f t txid amt = (None, tx')"
  shows "\<exists>s r. find_account (tx_db tx) f = Some s \<and> find_account (tx_db tx) t = Some r \<and>
     \<not> a_balance s <s amt \<and>
     tx' = tx\<lparr>tx_locks := tx_locks tx @ lock_pair f t s r,
              tx_db := (posted tx txid s r amt)\<lparr>accounts :=
        map (update_row (a_id r) (a_version r) (a_balance r + amt))
          (map (update_row (a_id s) (a_version s) (a_balance s - amt)) (accounts (tx_db tx)))\<rparr>\<rparr>"
proof -
  have mm: "{min f t, max f t} = {f, t}" by (auto simp: min_def max_def)
  obtain x where x: "find_account (tx_db tx) (min f t) = Some x"
    using ok TransferTx_first_missing [of tx f t txid amt] by (cases "find_account (tx_db tx) (min f t)") auto
  obtain y where y: "find_account (tx_db tx) (max f t) = Some y"
    using ok TransferTx_second_missing [OF x, of txid amt] by (cases "find_account (tx_db tx) (max f t)") auto
  obtain s where s: "find_account (tx_db tx) f = Some s"
    using x y by (cases "f \<le> t") (auto simp: min_def max_def)
  obtain r where r: "find_account (tx_db tx) t = Some r"
    using x y by (cases "f \<le> t") (auto simp: min_def max_def)
  from ok have "post_locks (tx\<lparr>tx_locks := tx_locks tx @ lock_pair f t s r\<rparr>) s r txid amt = (None, tx')"
    by (simp add: TransferTx_unfold [OF s r])
  from post_locks_success [OF this] s r show ?thesis
    by (auto simp: posted_def)
qed

lemma Transfer_unfold:
  "Transfer d f t txid amt =
     (case TransferTx \<lparr>tx_db = d\<lparr>payment_states := payment_states d @ [(txid, ''PENDING'')]\<rparr>, tx_locks = []\<rparr> f t txid amt of
        (Some err, tx2) \<Rightarrow> (Some err, d)
      | (None, tx2) \<Rightarrow> (None, (tx_db tx2)\<lparr>payment_states := payment_states (tx_db tx2) @ [(txid, ''SUCCESS'')]\<rparr>))"
  by (simp add: Transfer_def Begin_def Commit_def appendPaymentState_def split: prod.splits option.splits)

lemma Transfer_rollback: "Transfer d f t txid amt = (Some e, d') \<Longrightarrow> d' = d"
  by (auto simp: Transfer_unfold split: prod.splits option.splits)

lemma find_account_payment_states [simp]:
  "find_account (d\<lparr>payment_states := p\<rparr>) i = find_account d i"
  by (simp add: find_account_def)

lemma updateAccountBalance_locks [simp]:
  "tx_locks (snd (updateAccountBalance tx i nb v)) = tx_locks tx"
  by (simp add: updateAccountBalance_def exec_update_accounts_def)

lemma post_locks_locks [simp]: "tx_locks (snd (post_locks tx s r txid amt)) = tx_locks tx"
proof -
  have *: "\<And>tx i nb v e tx'. updateAccountBalance tx i nb v = (e, tx') \<Longrightarrow> tx_locks tx' = tx_locks tx"
    by (metis updateAccountBalance_locks snd_conv)
  show ?thesis
    by (auto simp: post_locks_def split: prod.splits option.splits dest!: *)
qed

lemma TransferTx_locks:
  "tx_locks (snd (TransferTx tx A B txid amt)) = tx_locks tx @ lock_trace (tx_db tx) A B"
proof (cases "find_account (tx_db tx) (min A B)")
  case None
  then show ?thesis by (simp add: TransferTx_first_missing lock_trace_def)
next
  case (Some lo)
  note lo = this
  show ?thesis
  proof (cases "find_account (tx_db tx) (max A B)")
    case None
    with lo show ?thesis by (simp add: TransferTx_second_missing [OF lo None] lock_trace_def)
  next
    case (Some hi)
    show ?thesis
    proof (cases "A > B")
      case True
      then have m: "min A B = B" "max A B = A" by simp_all
      with lo Some have "find_account (tx_db tx) A = Some hi" "find_account (tx_db tx) B = Some lo" by simp_all
      from TransferTx_unfold [OF this] show ?thesis using True lo Some m
        by (simp add: lock_trace_def lock_pair_def)
    next
      case False
      then have m: "min A B = A" "max A B = B" by simp_all
      with lo Some have "find_account (tx_db tx) A = Some lo" "find_account (tx_db tx) B = Some hi" by simp_all
      from TransferTx_unfold [OF this] show ?thesis using False lo Some m
        by (simp add: lock_trace_def lock_pair_def)
    qed
  qed
qed

lemma lock_trace_commute: "lock_trace d A B = lock_trace d B A"
  by (simp add: lock_trace_def min.commute [of A B] max.commute [of A B] cong: option.case_cong)

lemma entries_of_append:
  "entries_of (d\<lparr>ledger_entries := ledger_entries d @ es\<rparr>) txid =
     entries_of d txid @ filter (\<lambda>e. le_transaction_id e = txid) es"
  by (simp add: entries_of_def)

lemma TransferTx_entries:
  assumes "TransferTx tx f t txid amt = (None, tx')"
  shows "\<exists>s r. find_account (tx_db tx) f = Some s \<and> find_account (tx_db tx) t = Some r \<and>
     \<not> a_balance s <s amt \<and>
     ledger_entries (tx_db tx') = ledger_entries (tx_db tx) @ [debit_entry txid s amt, credit_entry txid r amt] \<and>
     accounts (tx_db tx') = map (update_row (a_id r) (a_version r) (a_balance r + amt))
          (map (update_row (a_id s) (a_version s) (a_balance s - amt)) (accounts (tx_db tx))) \<and>
     payment_states (tx_db tx') = payment_states (tx_db tx) \<and>
     transactions (tx_db tx') = transactions (tx_db tx) \<and>
     cards (tx_db tx') = cards (tx_db tx)"
  using TransferTx_success [OF assms] by (auto simp: posted_def)

lemma TransferTx_insufficient:
  assumes "find_account (tx_db tx) f = Some s" "find_account (tx_db tx) t = Some r"
    "a_balance s <s amt"
  shows "TransferTx tx f t txid amt =
    (Some (ErrMsg ''insufficient balance''), tx\<lparr>tx_locks := tx_locks tx @ lock_pair f t s r\<rparr>)"
  using assms by (simp add: TransferTx_unfold post_locks_insufficient)

lemma Transfer_success:
  assumes "Transfer d f t txid amt = (None, d')"
  shows "\<exists>s r. find_account d f = Some s \<and> find_account d t = Some r \<and>
     \<not> a_balance s <s amt \<and>
     ledger_entries d' = ledger_entries d @ [debit_entry txid s amt, credit_entry txid r amt] \<and>
     accounts d' = map (update_row (a_id r) (a_version r) (a_balance r + amt))
          (map (update_row (a_id s) (a_version s) (a_balance s - amt)) (accounts d)) \<and>
     payment_states d' = payment_states d @ [(txid, ''PENDING''), (txid, ''SUCCESS'')] \<and>
     transactions d' = transactions d \<and> cards d' = cards d"
proof -
  let ?tx1 = "\<lparr>tx_db = d\<lparr>payment_states := payment_states d @ [(txid, ''PENDING'')]\<rparr>, tx_locks = []\<rparr>"
  from assms obtain tx2 where run: "TransferTx ?tx1 f t txid amt = (None, tx2)"
    and d': "d' = (tx_db tx2)\<lparr>payment_states := payment_states (tx_db tx2) @ [(txid, ''SUCCESS'')]\<rparr>"
    by (auto simp: Transfer_unfold split: prod.splits option.splits)
  from TransferTx_entries [OF run] d' show ?thesis by auto
qed

lemma Transfer_insufficient:
  assumes "find_account d f = Some s" "find_account d t = Some r" "a_balance s <s amt"
  shows "Transfer d f t txid amt = (Some (ErrMsg ''insufficient balance''), d)"
proof -
  let ?tx1 = "\<lparr>tx_db = d\<lparr>payment_states := payment_states d @ [(txid, ''PENDING'')]\<rparr>, tx_locks = []\<rparr>"
  have "find_account (tx_db ?tx1) f = Some s" "find_account (tx_db ?tx1) t = Some r"
    using assms by simp_all
  from TransferTx_insufficient [OF this assms(3)] show ?thesis
    by (simp add: Transfer_unfold)
qed

lemma sint_neg_add:
  assumes "a \<noteq> - (2 ^ 63)"
  shows "sint (- a :: 64 word) + sint a = 0"
proof -
  have r: "- (2 ^ 63) \<le> sint a" "sint a < 2 ^ 63"
    using sint_ge [of a] sint_lt [of a] by simp_all
  have ne: "sint a \<noteq> - (2 ^ 63)"
  proof
    assume "sint a = - (2 ^ 63)"
    then have "(word_of_int (sint a) :: 64 word) = word_of_int (- (2 ^ 63))" by simp
    then show False using assms by simp
  qed
  have "sint (- a) = signed_take_bit 63 (- sint a)"
    by (simp add: sint_word_ariths)
  also have "\<dots> = - sint a"
    using r ne by (simp add: signed_take_bit_int_eq_self_iff)
  finally show ?thesis by simp
qed

lemma TransferTx_missing_destination:
  assumes s: "find_account (tx_db tx) f = Some s" and t: "find_account (tx_db tx) t = None"
  shows "fst (TransferTx tx f t txid amt) = Some ErrNoRows \<and>
         tx_db (snd (TransferTx tx f t txid amt)) = tx_db tx"
proof (cases "f > t")
  case True
  then have "min f t = t" by simp
  with t have "find_account (tx_db tx) (min f t) = None" by simp
  from TransferTx_first_missing [OF this] show ?thesis by simp
next
  case False
  then have m: "min f t = f" "max f t = t" by simp_all
  from m s t have "find_account (tx_db tx) (min f t) = Some s" "find_account (tx_db tx) (max f t) = None"
    by simp_all
  from TransferTx_second_missing [OF this] show ?thesis by simp
qed

lemma Transfer_missing_destination:
  assumes "find_account d f = Some s" "find_account d t = None"
  shows "Transfer d f t txid amt = (Some ErrNoRows, d)"
proof -
  let ?tx1 = "\<lparr>tx_db = d\<lparr>payment_states := payment_states d @ [(txid, ''PENDING'')]\<rparr>, tx_locks = []\<rparr>"
  have "find_account (tx_db ?tx1) f = Some s" "find_account (tx_db ?tx1) t = None"
    using assms by simp_all
  from TransferTx_missing_destination [OF this, of txid amt]
  show ?thesis
    by (cases "TransferTx ?tx1 f t txid amt") (simp add: Transfer_unfold)
qed

lemma entries_of_after:
  assumes "ledger_entries d' = ledger_entries d @ [debit_entry txid s amt, credit_entry txid r amt]"
  shows "entries_of d' i = entries_of d i @
       (if i = txid then [debit_entry txid s amt, credit_entry txid r amt] else [])"
  using assms by (auto simp: entries_of_def debit_entry_def credit_entry_def)

subsection \<open>Concrete runs\<close>

lemma demo_transfer:
  "TransferTx (Begin demo_db) ''X'' ''Y'' ''tx-1'' 3000 =
   (None, \<lparr>tx_db = demo_db\<lparr>accounts :=
        [\<lparr>a_id = ''X'', a_card_id = Some ''card_X'', a_account_id = Some ''1234567890'',
          a_balance = 2000, a_version = 2, a_status = Some ''ACTIVE''\<rparr>,
         \<lparr>a_id = ''Y'', a_card_id = Some ''card_Y'', a_account_id = Some ''2345678901'',
          a_balance = 4000, a_version = 2, a_status = Some ''ACTIVE''\<rparr>],
      ledger_entries :=
        [\<lparr>le_transaction_id = ''tx-1'', le_account_id = ''X'', le_amount = - 3000,
          le_entry_type = ''DEBIT'', le_balance = 2000\<rparr>,
         \<lparr>le_transaction_id = ''tx-1'', le_account_id = ''Y'', le_amount = 3000,
          le_entry_type = ''CREDIT'', le_balance = 4000\<rparr>]\<rparr>,
      tx_locks = [(''X'', ''X''), (''Y'', ''Y'')]\<rparr>)"
  by (simp add: TransferTx_def Begin_def demo_db_def lockAccount_def find_account_def
      createLedgerEntry_def updateAccountBalance_def exec_update_accounts_def update_row_def)

lemma demo_transfer_back:
  "TransferTx (Begin demo_db) ''Y'' ''X'' ''tx-2'' 400 =
   (None, \<lparr>tx_db = demo_db\<lparr>accounts :=
        [\<lparr>a_id = ''X'', a_card_id = Some ''card_X'', a_account_id = Some ''1234567890'',
          a_balance = 5400, a_version = 2, a_status = Some ''ACTIVE''\<rparr>,
         \<lparr>a_id = ''Y'', a_card_id = Some ''card_Y'', a_account_id = Some ''2345678901'',
          a_balance = 600, a_version = 2, a_status = Some ''ACTIVE''\<rparr>],
      ledger_entries :=
        [\<lparr>le_transaction_id = ''tx-2'', le_account_id = ''Y'', le_amount = - 400,
          le_entry_type = ''DEBIT'', le_balance = 600\<rparr>,
         \<lparr>le_transaction_id = ''tx-2'', le_account_id = ''X'', le_amount = 400,
          le_entry_type = ''CREDIT'', le_balance = 5400\<rparr>]\<rparr>,
      tx_locks = [(''X'', ''X''), (''Y'', ''Y'')]\<rparr>)"
  by (simp add: TransferTx_def Begin_def demo_db_def lockAccount_def find_account_def
      createLedgerEntry_def updateAccountBalance_def exec_update_accounts_def update_row_def)

lemma demo_Transfer:
  "Transfer demo_db ''X'' ''Y'' ''tx-1'' 3000 =
    (None, demo_db\<lparr>accounts :=
        [\<lparr>a_id = ''X'', a_card_id = Some ''card_X'', a_account_id = Some ''1234567890'',
          a_balance = 2000, a_version = 2, a_status = Some ''ACTIVE''\<rparr>,
         \<lparr>a_id = ''Y'', a_card_id = Some ''card_Y'', a_account_id = Some ''2345678901'',
          a_balance = 4000, a_version = 2, a_status = Some ''ACTIVE''\<rparr>],
      ledger_entries :=
        [\<lparr>le_transaction_id = ''tx-1'', le_account_id = ''X'', le_amount = - 3000,
          le_entry_type = ''DEBIT'', le_balance = 2000\<rparr>,
         \<lparr>le_transaction_id = ''tx-1'', le_account_id = ''Y'', le_amount = 3000,
          le_entry_type = ''CREDIT'', le_balance = 4000\<rparr>],
      payment_states := [(''tx-1'', ''PENDING''), (''tx-1'', ''SUCCESS'')]\<rparr>)"
  by (simp add: Transfer_def TransferTx_def Begin_def Commit_def appendPaymentState_def demo_db_def
      lockAccount_def find_account_def
      createLedgerEntry_def updateAccountBalance_def exec_update_accounts_def update_row_def)

lemma demo_transfer_least:
  "TransferTx (Begin demo_db) ''X'' ''Y'' ''tx-1'' (- (2 ^ 63)) =
   (None, \<lparr>tx_db = demo_db\<lparr>accounts :=
        [\<lparr>a_id = ''X'', a_card_id = Some ''card_X'', a_account_id = Some ''1234567890'',
          a_balance = 5000 + 2 ^ 63, a_version = 2, a_status = Some ''ACTIVE''\<rparr>,
         \<lparr>a_id = ''Y'', a_card_id = Some ''card_Y'', a_account_id = Some ''2345678901'',
          a_balance = 1000 + 2 ^ 63, a_version = 2, a_status = Some ''ACTIVE''\<rparr>],
      ledger_entries :=
        [\<lparr>le_transaction_id = ''tx-1'', le_account_id = ''X'', le_amount = - (2 ^ 63),
          le_entry_type = ''DEBIT'', le_balance = 5000 + 2 ^ 63\<rparr>,
         \<lparr>le_transaction_id = ''tx-1'', le_account_id = ''Y'', le_amount = - (2 ^ 63),
          le_entry_type = ''CREDIT'', le_balance = 1000 + 2 ^ 63\<rparr>]\<rparr>,
      tx_locks = [(''X'', ''X''), (''Y'', ''Y'')]\<rparr>)"
  by (simp add: TransferTx_def Begin_def demo_db_def lockAccount_def find_account_def
      createLedgerEntry_def updateAccountBalance_def exec_update_accounts_def update_row_def
      word_sless_alt)

section \<open>The ledger: claims\<close>

text \<open>
  C1 (as amended). When \<open>TransferTx\<close> returns nil, it has appended exactly two rows to
  \<open>ledger_entries\<close>, both under the transaction identifier: a DEBIT row of amount
  \<open>- amount\<close> and balance \<open>sourceBalance - amount\<close> on the source account, then a
  CREDIT row of amount \<open>amount\<close> and balance \<open>destBalance + amount\<close> on the
  destination account, all in \<open>int64\<close>. The \<open>int64\<close> sum of the amounts recorded under
  any identifier is what it was before. Unless the amount is the least \<open>int64\<close>, the two
  amounts cancel as integers too: the integer sum under any identifier is what it was
  before, hence exactly zero under an identifier that had no entry.
\<close>

theorem TransferTx_double_entry:
  assumes "TransferTx tx fromAccountID toAccountID transactionID amount = (None, tx')"
  shows "\<exists>src dst.
    find_account (tx_db tx) fromAccountID = Some src \<and>
    find_account (tx_db tx) toAccountID = Some dst \<and>
    ledger_entries (tx_db tx') = ledger_entries (tx_db tx) @
      [\<lparr>le_transaction_id = transactionID, le_account_id = a_id src, le_amount = - amount,
        le_entry_type = ''DEBIT'', le_balance = a_balance src - amount\<rparr>,
       \<lparr>le_transaction_id = transactionID, le_account_id = a_id dst, le_amount = amount,
        le_entry_type = ''CREDIT'', le_balance = a_balance dst + amount\<rparr>] \<and>
    length (entries_of (tx_db tx') transactionID) = length (entries_of (tx_db tx) transactionID) + 2 \<and>
    (\<forall>i. entry_sum (tx_db tx') i = entry_sum (tx_db tx) i) \<and>
    (entries_of (tx_db tx) transactionID = [] \<longrightarrow> entry_sum (tx_db tx') transactionID = 0) \<and>
    (amount \<noteq> - (2 ^ 63) \<longrightarrow>
       sint (- amount) + sint amount = 0 \<and>
       (\<forall>i. entry_sum_int (tx_db tx') i = entry_sum_int (tx_db tx) i) \<and>
       (entries_of (tx_db tx) transactionID = [] \<longrightarrow> entry_sum_int (tx_db tx') transactionID = 0))"
proof -
  from TransferTx_entries [OF assms] obtain s r where
    s: "find_account (tx_db tx) fromAccountID = Some s" and
    r: "find_account (tx_db tx) toAccountID = Some r" and
    le: "ledger_entries (tx_db tx') = ledger_entries (tx_db tx) @
       [debit_entry transactionID s amount, credit_entry transactionID r amount]"
    by blast
  note e = entries_of_after [OF le]
  have sum: "entry_sum (tx_db tx') i = entry_sum (tx_db tx) i" for i
    by (simp add: entry_sum_def e debit_entry_def credit_entry_def)
  have zero: "entries_of (tx_db tx) transactionID = [] \<longrightarrow> entry_sum (tx_db tx') transactionID = 0"
    by (simp add: sum) (simp add: entry_sum_def)
  have isum: "entry_sum_int (tx_db tx') i = entry_sum_int (tx_db tx) i" if "amount \<noteq> - (2 ^ 63)" for i
    using sint_neg_add [OF that]
    by (simp add: entry_sum_int_def e debit_entry_def credit_entry_def)
  have izero: "entries_of (tx_db tx) transactionID = [] \<longrightarrow> entry_sum_int (tx_db tx') transactionID = 0"
    if "amount \<noteq> - (2 ^ 63)"
    by (simp add: isum [OF that]) (simp add: entry_sum_int_def)
  show ?thesis
    using s r le e [of transactionID] sum zero sint_neg_add [of amount] isum izero
    by (simp add: debit_entry_def credit_entry_def)
qed

theorem TransferTx_double_entry_witness:
  "fst (TransferTx (Begin demo_db) ''X'' ''Y'' ''tx-1'' 3000) = None \<and>
   length (entries_of (tx_db (snd (TransferTx (Begin demo_db) ''X'' ''Y'' ''tx-1'' 3000))) ''tx-1'') = 2 \<and>
   entry_sum (tx_db (snd (TransferTx (Begin demo_db) ''X'' ''Y'' ''tx-1'' 3000))) ''tx-1'' = 0 \<and>
   entry_sum_int (tx_db (snd (TransferTx (Begin demo_db) ''X'' ''Y'' ''tx-1'' 3000))) ''tx-1'' = 0"
proof -
  obtain tx' where run: "TransferTx (Begin demo_db) ''X'' ''Y'' ''tx-1'' 3000 = (None, tx')"
    using demo_transfer by simp
  have e: "entries_of (tx_db (Begin demo_db)) ''tx-1'' = []"
    by (simp add: entries_of_def Begin_def demo_db_def)
  have n: "(3000 :: int64) \<noteq> - (2 ^ 63)" by simp
  from TransferTx_double_entry [OF run] have
    "length (entries_of (tx_db tx') ''tx-1'') = length (entries_of (tx_db (Begin demo_db)) ''tx-1'') + 2"
    "entries_of (tx_db (Begin demo_db)) ''tx-1'' = [] \<longrightarrow> entry_sum (tx_db tx') ''tx-1'' = 0"
    "(3000 :: int64) \<noteq> - (2 ^ 63) \<longrightarrow>
       (entries_of (tx_db (Begin demo_db)) ''tx-1'' = [] \<longrightarrow> entry_sum_int (tx_db tx') ''tx-1'' = 0)"
    by blast+
  with e n show ?thesis by (simp add: run)
qed

text \<open>
  C1 fails as stated at the least \<open>int64\<close>, which is its own negation: the transfer of
  \<open>- 2 ^ 63\<close> from \<open>X\<close> to \<open>Y\<close> returns nil, and its two entries both carry
  \<open>- 2 ^ 63\<close>, so their sum is \<open>- 2 ^ 64\<close> and not zero.
\<close>

theorem TransferTx_least_amount_sum:
  "fst (TransferTx (Begin demo_db) ''X'' ''Y'' ''tx-1'' (- (2 ^ 63))) = None \<and>
   length (entries_of (tx_db (snd (TransferTx (Begin demo_db) ''X'' ''Y'' ''tx-1'' (- (2 ^ 63))))) ''tx-1'') = 2 \<and>
   entry_sum_int (tx_db (snd (TransferTx (Begin demo_db) ''X'' ''Y'' ''tx-1'' (- (2 ^ 63))))) ''tx-1'' =
     - (2 ^ 64)"
  unfolding demo_transfer_least
  by (simp add: entry_sum_int_def entries_of_def demo_db_def)

text \<open>
  C2 (as amended). When the row found for the source holds less than the amount,
  \<open>TransferTx\<close> and \<open>Transfer\<close> fail and write nothing: the state the transaction sees
  and the committed store are what they were, so no ledger entry is inserted and no
  balance or version changes. The error is the insufficient-balance one when the
  destination is found; when it is not, it is \<open>sql.ErrNoRows\<close>, because both accounts
  are locked before the balance is compared.
\<close>

theorem insufficient_balance_no_partial_writes:
  assumes "find_account (tx_db tx) fromAccountID = Some src"
    and "a_balance src <s amount"
  shows "(find_account (tx_db tx) toAccountID \<noteq> None \<longrightarrow>
            fst (TransferTx tx fromAccountID toAccountID transactionID amount) =
              Some (ErrMsg ''insufficient balance'') \<and>
            Transfer (tx_db tx) fromAccountID toAccountID transactionID amount =
              (Some (ErrMsg ''insufficient balance''), tx_db tx)) \<and>
         (find_account (tx_db tx) toAccountID = None \<longrightarrow>
            fst (TransferTx tx fromAccountID toAccountID transactionID amount) = Some ErrNoRows \<and>
            Transfer (tx_db tx) fromAccountID toAccountID transactionID amount =
              (Some ErrNoRows, tx_db tx)) \<and>
         tx_db (snd (TransferTx tx fromAccountID toAccountID transactionID amount)) = tx_db tx"
proof (cases "find_account (tx_db tx) toAccountID")
  case None
  from TransferTx_missing_destination [OF assms(1) None]
    Transfer_missing_destination [OF assms(1) None]
  show ?thesis using None by simp
next
  case (Some dst)
  from TransferTx_insufficient [OF assms(1) Some assms(2)]
    Transfer_insufficient [OF assms(1) Some assms(2)]
  show ?thesis using Some by simp
qed

theorem insufficient_balance_no_partial_writes_witness:
  "Transfer demo_db ''X'' ''Y'' ''tx-1'' 6000 = (Some (ErrMsg ''insufficient balance''), demo_db) \<and>
   fst (TransferTx (Begin demo_db) ''X'' ''Y'' ''tx-1'' 6000) = Some (ErrMsg ''insufficient balance'') \<and>
   tx_db (snd (TransferTx (Begin demo_db) ''X'' ''Y'' ''tx-1'' 6000)) = demo_db \<and>
   map a_balance (accounts demo_db) = [5000, 1000] \<and>
   map a_version (accounts demo_db) = [1, 1] \<and>
   ledger_entries demo_db = [] \<and>
   fst (Transfer demo_db ''X'' ''Z'' ''tx-1'' 6000) = Some ErrNoRows"
proof -
  have x: "find_account (tx_db (Begin demo_db)) ''X'' = Some (accounts demo_db ! 0)"
    by (simp add: find_account_def demo_db_def Begin_def)
  have y: "find_account (tx_db (Begin demo_db)) ''Y'' \<noteq> None"
    by (simp add: find_account_def demo_db_def Begin_def)
  have z: "find_account (tx_db (Begin demo_db)) ''Z'' = None"
    by (simp add: find_account_def demo_db_def Begin_def)
  have b: "a_balance (accounts demo_db ! 0) <s 6000"
    by (simp add: demo_db_def)
  have d: "tx_db (Begin demo_db) = demo_db" by (simp add: Begin_def)
  note t = insufficient_balance_no_partial_writes [OF x b, of _ "''tx-1''"]
  from t [of "''Y''"] y have
    "fst (TransferTx (Begin demo_db) ''X'' ''Y'' ''tx-1'' 6000) = Some (ErrMsg ''insufficient balance'')"
    "Transfer (tx_db (Begin demo_db)) ''X'' ''Y'' ''tx-1'' 6000 =
       (Some (ErrMsg ''insufficient balance''), tx_db (Begin demo_db))"
    "tx_db (snd (TransferTx (Begin demo_db) ''X'' ''Y'' ''tx-1'' 6000)) = tx_db (Begin demo_db)"
    by blast+
  moreover from t [of "''Z''"] z have
    "Transfer (tx_db (Begin demo_db)) ''X'' ''Z'' ''tx-1'' 6000 = (Some ErrNoRows, tx_db (Begin demo_db))"
    by blast
  ultimately show ?thesis
    by (simp add: d) (simp add: demo_db_def)
qed

text \<open>
  C2 fails as stated when the destination has no row: the source \<open>X\<close> holds 5000, the
  amount is 6000, and the error is \<open>sql.ErrNoRows\<close>, not the insufficient-balance one.
\<close>

theorem missing_destination_is_not_insufficient_balance:
  "Transfer demo_db ''X'' ''Z'' ''tx-1'' 6000 = (Some ErrNoRows, demo_db) \<and>
   fst (TransferTx (Begin demo_db) ''X'' ''Z'' ''tx-1'' 6000) = Some ErrNoRows \<and>
   map a_balance (accounts demo_db) = [5000, 1000]"
  by (simp add: Transfer_def TransferTx_def Begin_def appendPaymentState_def lockAccount_def
      find_account_def demo_db_def)

text \<open>
  C6. The rows \<open>TransferTx\<close> locks, and their order, depend only on the two
  identifiers, not on which is the source: the row of the lexically smaller identifier
  first, then the row of the larger (\<open>lock_trace\<close>), so a transfer from \<open>A\<close> to \<open>B\<close>
  and one from \<open>B\<close> to \<open>A\<close> take the same locks in the same order. After the
  locks the roles are those the caller named: on success the DEBIT entry and the
  decreased balance are on the row found for the source, the CREDIT entry and the
  increased balance on the row found for the destination.
\<close>

theorem TransferTx_lock_order:
  "tx_locks (snd (TransferTx tx A B transactionID amount)) = tx_locks tx @ lock_trace (tx_db tx) A B \<and>
   tx_locks (snd (TransferTx tx B A transactionID' amount')) = tx_locks tx @ lock_trace (tx_db tx) A B \<and>
   (\<forall>lo hi. A \<noteq> B \<and> find_account (tx_db tx) (min A B) = Some lo \<and>
        find_account (tx_db tx) (max A B) = Some hi \<longrightarrow>
      lock_trace (tx_db tx) A B = [(min A B, a_id lo), (max A B, a_id hi)] \<and> min A B < max A B) \<and>
   (\<forall>tx'. TransferTx tx A B transactionID amount = (None, tx') \<longrightarrow>
      (\<exists>src dst. find_account (tx_db tx) A = Some src \<and> find_account (tx_db tx) B = Some dst \<and>
         ledger_entries (tx_db tx') = ledger_entries (tx_db tx) @
           [debit_entry transactionID src amount, credit_entry transactionID dst amount] \<and>
         accounts (tx_db tx') =
           map (update_row (a_id dst) (a_version dst) (a_balance dst + amount))
             (map (update_row (a_id src) (a_version src) (a_balance src - amount))
               (accounts (tx_db tx)))))"
proof -
  have "tx_locks (snd (TransferTx tx B A transactionID' amount')) = tx_locks tx @ lock_trace (tx_db tx) A B"
    by (simp add: TransferTx_locks lock_trace_commute [of _ B A])
  moreover have "\<forall>lo hi. A \<noteq> B \<and> find_account (tx_db tx) (min A B) = Some lo \<and>
        find_account (tx_db tx) (max A B) = Some hi \<longrightarrow>
      lock_trace (tx_db tx) A B = [(min A B, a_id lo), (max A B, a_id hi)] \<and> min A B < max A B"
    by (auto simp: lock_trace_def min_def max_def)
  moreover have "\<forall>tx'. TransferTx tx A B transactionID amount = (None, tx') \<longrightarrow>
      (\<exists>src dst. find_account (tx_db tx) A = Some src \<and> find_account (tx_db tx) B = Some dst \<and>
         ledger_entries (tx_db tx') = ledger_entries (tx_db tx) @
           [debit_entry transactionID src amount, credit_entry transactionID dst amount] \<and>
         accounts (tx_db tx') =
           map (update_row (a_id dst) (a_version dst) (a_balance dst + amount))
             (map (update_row (a_id src) (a_version src) (a_balance src - amount))
               (accounts (tx_db tx))))"
    using TransferTx_entries by blast
  ultimately show ?thesis
    by (simp add: TransferTx_locks)
qed

theorem TransferTx_lock_order_witness:
  "tx_locks (snd (TransferTx (Begin demo_db) ''Y'' ''X'' ''tx-2'' 400)) = [(''X'', ''X''), (''Y'', ''Y'')] \<and>
   tx_locks (snd (TransferTx (Begin demo_db) ''X'' ''Y'' ''tx-1'' 3000)) = [(''X'', ''X''), (''Y'', ''Y'')] \<and>
   map le_account_id (ledger_entries (tx_db (snd (TransferTx (Begin demo_db) ''Y'' ''X'' ''tx-2'' 400)))) = [''Y'', ''X''] \<and>
   map a_balance (accounts (tx_db (snd (TransferTx (Begin demo_db) ''Y'' ''X'' ''tx-2'' 400)))) = [5400, 600]"
proof -
  let ?tx = "Begin demo_db"
  have m: "min ''Y'' ''X'' = ''X''" "max ''Y'' ''X'' = ''Y''" "''Y'' \<noteq> ''X''"
    by (simp_all add: min_def max_def)
  have x: "find_account (tx_db ?tx) (min ''Y'' ''X'') = Some (accounts demo_db ! 0)"
    by (simp add: m) (simp add: find_account_def demo_db_def Begin_def)
  have y: "find_account (tx_db ?tx) (max ''Y'' ''X'') = Some (accounts demo_db ! 1)"
    by (simp add: m) (simp add: find_account_def demo_db_def Begin_def)
  have x': "find_account (tx_db ?tx) ''X'' = Some (accounts demo_db ! 0)" using x by (simp add: m)
  have y': "find_account (tx_db ?tx) ''Y'' = Some (accounts demo_db ! 1)" using y by (simp add: m)
  note t = TransferTx_lock_order [of ?tx "''Y''" "''X''" "''tx-2''" 400 "''tx-1''" 3000]
  from t x y m(3) have tr: "lock_trace (tx_db ?tx) ''Y'' ''X'' = [(min ''Y'' ''X'', a_id (accounts demo_db ! 0)), (max ''Y'' ''X'', a_id (accounts demo_db ! 1))]"
    by blast
  from t have l1: "tx_locks (snd (TransferTx ?tx ''Y'' ''X'' ''tx-2'' 400)) = tx_locks ?tx @ lock_trace (tx_db ?tx) ''Y'' ''X''"
    and l2: "tx_locks (snd (TransferTx ?tx ''X'' ''Y'' ''tx-1'' 3000)) = tx_locks ?tx @ lock_trace (tx_db ?tx) ''Y'' ''X''"
    by blast+
  from t demo_transfer_back obtain src dst where
    sd: "find_account (tx_db ?tx) ''Y'' = Some src" "find_account (tx_db ?tx) ''X'' = Some dst"
    and le: "ledger_entries (tx_db (snd (TransferTx ?tx ''Y'' ''X'' ''tx-2'' 400))) = ledger_entries (tx_db ?tx) @
           [debit_entry ''tx-2'' src 400, credit_entry ''tx-2'' dst 400]"
    and ac: "accounts (tx_db (snd (TransferTx ?tx ''Y'' ''X'' ''tx-2'' 400))) =
           map (update_row (a_id dst) (a_version dst) (a_balance dst + 400))
             (map (update_row (a_id src) (a_version src) (a_balance src - 400))
               (accounts (tx_db ?tx)))"
    by (metis snd_conv)
  from sd x' y' have [simp]: "src = accounts demo_db ! 1" "dst = accounts demo_db ! 0" by simp_all
  have l: "tx_locks ?tx = []" "ledger_entries (tx_db ?tx) = []" by (simp_all add: Begin_def demo_db_def)
  show ?thesis
    apply (simp only: l1 l2 tr le ac l m)
    apply (simp add: demo_db_def Begin_def debit_entry_def credit_entry_def update_row_def)
    done
qed

text \<open>
  C7. \<open>updateAccountBalance\<close> succeeds only if a row has the identifier and the version
  it was given; it then sets the balance of each such row and moves its version up by
  exactly one, and touches no other row. If no row has that identifier and version, it
  changes nothing and returns the optimistic-lock error. A \<open>Transfer\<close> that returns an
  error, this one included, hands back the store it began with, so it advances no
  version; one that returns nil has applied exactly its two version-conditioned updates,
  each advancing a version together with the balance it writes.
\<close>

theorem updateAccountBalance_version:
  "(\<forall>tx'. updateAccountBalance tx accountID newBalance version = (None, tx') \<longrightarrow>
      (\<exists>r \<in> set (accounts (tx_db tx)). a_id r = accountID \<and> a_version r = version) \<and>
      tx' = tx\<lparr>tx_db := (tx_db tx)\<lparr>accounts :=
        map (\<lambda>r. if a_id r = accountID \<and> a_version r = version
                  then r\<lparr>a_balance := newBalance, a_version := version + 1\<rparr> else r)
          (accounts (tx_db tx))\<rparr>\<rparr>) \<and>
   ((\<forall>r \<in> set (accounts (tx_db tx)). \<not> (a_id r = accountID \<and> a_version r = version)) \<longrightarrow>
      updateAccountBalance tx accountID newBalance version =
        (Some (ErrMsg (''optimistic lock failed for account '' @ accountID)), tx)) \<and>
   (\<forall>err d'. Transfer d fromAccountID toAccountID transactionID amount = (Some err, d') \<longrightarrow> d' = d) \<and>
   (\<forall>d'. Transfer d fromAccountID toAccountID transactionID amount = (None, d') \<longrightarrow>
      (\<exists>src dst. find_account d fromAccountID = Some src \<and> find_account d toAccountID = Some dst \<and>
         accounts d' =
           map (update_row (a_id dst) (a_version dst) (a_balance dst + amount))
             (map (update_row (a_id src) (a_version src) (a_balance src - amount)) (accounts d))))"
proof -
  have eq: "(\<lambda>r. if a_id r = accountID \<and> a_version r = version
                  then r\<lparr>a_balance := newBalance, a_version := version + 1\<rparr> else r) =
            update_row accountID version newBalance"
    by (auto simp: update_row_def fun_eq_iff)
  have a: "\<forall>tx'. updateAccountBalance tx accountID newBalance version = (None, tx') \<longrightarrow>
      (\<exists>r \<in> set (accounts (tx_db tx)). a_id r = accountID \<and> a_version r = version) \<and>
      tx' = tx\<lparr>tx_db := (tx_db tx)\<lparr>accounts :=
        map (\<lambda>r. if a_id r = accountID \<and> a_version r = version
                  then r\<lparr>a_balance := newBalance, a_version := version + 1\<rparr> else r)
          (accounts (tx_db tx))\<rparr>\<rparr>"
    unfolding eq
    by (auto simp: updateAccountBalance_def exec_update_accounts_def filter_empty_conv
        split: if_splits)
  have b: "(\<forall>r \<in> set (accounts (tx_db tx)). \<not> (a_id r = accountID \<and> a_version r = version)) \<longrightarrow>
      updateAccountBalance tx accountID newBalance version =
        (Some (ErrMsg (''optimistic lock failed for account '' @ accountID)), tx)"
    using updateAccountBalance_miss by blast
  have c: "\<forall>err d'. Transfer d fromAccountID toAccountID transactionID amount = (Some err, d') \<longrightarrow> d' = d"
    using Transfer_rollback by blast
  have e: "\<forall>d'. Transfer d fromAccountID toAccountID transactionID amount = (None, d') \<longrightarrow>
      (\<exists>src dst. find_account d fromAccountID = Some src \<and> find_account d toAccountID = Some dst \<and>
         accounts d' =
           map (update_row (a_id dst) (a_version dst) (a_balance dst + amount))
             (map (update_row (a_id src) (a_version src) (a_balance src - amount)) (accounts d)))"
    using Transfer_success by blast
  show ?thesis by (rule conjI [OF a conjI [OF b conjI [OF c e]]])
qed

theorem updateAccountBalance_version_witness:
  "map a_version (accounts (tx_db (snd (updateAccountBalance (Begin demo_db) ''X'' 2000 1)))) = [2, 1] \<and>
   map a_balance (accounts (tx_db (snd (updateAccountBalance (Begin demo_db) ''X'' 2000 1)))) = [2000, 1000] \<and>
   updateAccountBalance (Begin demo_db) ''X'' 2000 7 =
     (Some (ErrMsg ''optimistic lock failed for account X''), Begin demo_db) \<and>
   snd (Transfer demo_db ''X'' ''Y'' ''tx-1'' 6000) = demo_db \<and>
   map a_version (accounts (snd (Transfer demo_db ''X'' ''Y'' ''tx-1'' 3000))) = [2, 2]"
proof -
  note t = updateAccountBalance_version [of "Begin demo_db" "''X''" 2000 _ demo_db "''X''" "''Y''" "''tx-1''"]
  note t1 = t [of 1 3000, THEN conjunct1, rule_format]
  note t2 = t [of 7 3000, THEN conjunct2, THEN conjunct1, THEN mp]
  note t3 = t [of 1 6000, THEN conjunct2, THEN conjunct2, THEN conjunct1, rule_format]
  note t4 = t [of 1 3000, THEN conjunct2, THEN conjunct2, THEN conjunct2, rule_format]
  have ok: "updateAccountBalance (Begin demo_db) ''X'' 2000 1 =
      (None, snd (updateAccountBalance (Begin demo_db) ''X'' 2000 1))"
    by (simp add: updateAccountBalance_def exec_update_accounts_def Begin_def demo_db_def)
  have u: "snd (updateAccountBalance (Begin demo_db) ''X'' 2000 1) =
     (Begin demo_db)\<lparr>tx_db := (tx_db (Begin demo_db))\<lparr>accounts :=
        map (\<lambda>r. if a_id r = ''X'' \<and> a_version r = 1
                  then r\<lparr>a_balance := 2000, a_version := 1 + 1\<rparr> else r)
          (accounts (tx_db (Begin demo_db)))\<rparr>\<rparr>"
    by (rule t1 [OF ok, THEN conjunct2])
  have miss: "\<forall>r \<in> set (accounts (tx_db (Begin demo_db))). \<not> (a_id r = ''X'' \<and> a_version r = 7)"
    by (simp add: Begin_def demo_db_def)
  have f: "updateAccountBalance (Begin demo_db) ''X'' 2000 7 =
        (Some (ErrMsg (''optimistic lock failed for account '' @ ''X'')), Begin demo_db)"
    by (rule t2 [OF miss])
  have x: "find_account demo_db ''X'' = Some (accounts demo_db ! 0)"
    and y: "find_account demo_db ''Y'' = Some (accounts demo_db ! 1)"
    by (simp_all add: find_account_def demo_db_def)
  have b6: "a_balance (accounts demo_db ! 0) <s 6000" by (simp add: demo_db_def)
  have bad: "Transfer demo_db ''X'' ''Y'' ''tx-1'' 6000 =
      (Some (ErrMsg ''insufficient balance''), snd (Transfer demo_db ''X'' ''Y'' ''tx-1'' 6000))"
    by (simp add: Transfer_insufficient [OF x y b6])
  have r: "snd (Transfer demo_db ''X'' ''Y'' ''tx-1'' 6000) = demo_db"
    by (rule t3 [OF bad])
  have good: "Transfer demo_db ''X'' ''Y'' ''tx-1'' 3000 =
      (None, snd (Transfer demo_db ''X'' ''Y'' ''tx-1'' 3000))"
    by (simp add: demo_Transfer)
  from t4 [OF good] obtain src dst where
    sd: "find_account demo_db ''X'' = Some src" "find_account demo_db ''Y'' = Some dst"
    and ac: "accounts (snd (Transfer demo_db ''X'' ''Y'' ''tx-1'' 3000)) =
           map (update_row (a_id dst) (a_version dst) (a_balance dst + 3000))
             (map (update_row (a_id src) (a_version src) (a_balance src - 3000)) (accounts demo_db))"
    by blast
  from sd x y have sd': "src = accounts demo_db ! 0" "dst = accounts demo_db ! 1" by simp_all
  show ?thesis
    apply (simp only: u f r ac sd')
    apply (simp add: demo_db_def Begin_def update_row_def)
    done
qed

text \<open>
  C10. A transfer from an account to itself never commits anything: \<open>Transfer\<close> returns
  an error and the store it was given. When the account exists and holds at least the
  amount, the error is the optimistic-lock one: inside the transaction the first update
  has moved the row to the next version, so the second update, conditioned on the
  version read under the lock, matches no row; the inserted entries and the first update
  are then rolled back.
\<close>

theorem self_transfer_rolled_back:
  "(\<exists>err. Transfer d a a transactionID amount = (Some err, d)) \<and>
   (\<forall>r. find_account d a = Some r \<and> \<not> a_balance r <s amount \<longrightarrow>
      Transfer d a a transactionID amount =
        (Some (ErrMsg (''optimistic lock failed for account '' @ a_id r)), d) \<and>
      fst (TransferTx (Begin d) a a transactionID amount) =
        Some (ErrMsg (''optimistic lock failed for account '' @ a_id r)) \<and>
      accounts (tx_db (snd (TransferTx (Begin d) a a transactionID amount))) =
        map (update_row (a_id r) (a_version r) (a_balance r - amount)) (accounts d) \<and>
      fst (exec_update_accounts (snd (TransferTx (Begin d) a a transactionID amount))
             (a_id r) (a_balance r + amount) (a_version r)) = 0)"
proof -
  have self: "TransferTx tx a a transactionID amount =
      (Some (ErrMsg (''optimistic lock failed for account '' @ a_id r)),
       tx\<lparr>tx_locks := tx_locks tx @ lock_pair a a r r,
          tx_db := (posted tx transactionID r r amount)\<lparr>accounts :=
            map (update_row (a_id r) (a_version r) (a_balance r - amount)) (accounts (tx_db tx))\<rparr>\<rparr>)"
    if "find_account (tx_db tx) a = Some r" "\<not> a_balance r <s amount" for tx r
  proof -
    have m: "r \<in> set (accounts (tx_db (tx\<lparr>tx_locks := tx_locks tx @ lock_pair a a r r\<rparr>)))"
      using that(1) by (auto dest: find_account_mem)
    show ?thesis
      using post_locks_self [OF m that(2), of transactionID]
      by (simp add: TransferTx_unfold [OF that(1) that(1)] posted_def)
  qed
  have two: "Transfer d a a transactionID amount =
        (Some (ErrMsg (''optimistic lock failed for account '' @ a_id r)), d) \<and>
      fst (TransferTx (Begin d) a a transactionID amount) =
        Some (ErrMsg (''optimistic lock failed for account '' @ a_id r)) \<and>
      accounts (tx_db (snd (TransferTx (Begin d) a a transactionID amount))) =
        map (update_row (a_id r) (a_version r) (a_balance r - amount)) (accounts d) \<and>
      fst (exec_update_accounts (snd (TransferTx (Begin d) a a transactionID amount))
             (a_id r) (a_balance r + amount) (a_version r)) = 0"
    if r: "find_account d a = Some r" and b: "\<not> a_balance r <s amount" for r
  proof -
    let ?tx1 = "\<lparr>tx_db = d\<lparr>payment_states := payment_states d @ [(transactionID, ''PENDING'')]\<rparr>, tx_locks = []\<rparr>"
    have r1: "find_account (tx_db ?tx1) a = Some r" using r by simp
    have r0: "find_account (tx_db (Begin d)) a = Some r" using r by (simp add: Begin_def)
    have stale: "filter (\<lambda>x. a_id x = a_id r \<and> a_version x = a_version r)
        (map (update_row (a_id r) (a_version r) (a_balance r - amount)) (accounts d)) = []"
      using update_row_stale [of "a_id r" "a_version r" "a_balance r - amount" "accounts d"]
      by (auto simp: filter_empty_conv)
    show ?thesis
      using self [OF r1 b] self [OF r0 b] stale
      by (simp add: Transfer_unfold exec_update_accounts_def posted_def Begin_def)
  qed
  have "\<exists>err. Transfer d a a transactionID amount = (Some err, d)"
  proof (cases "find_account d a")
    case None
    then have "find_account (tx_db \<lparr>tx_db = d\<lparr>payment_states := payment_states d @ [(transactionID, ''PENDING'')]\<rparr>, tx_locks = []\<rparr>) (min a a) = None"
      by simp
    from TransferTx_first_missing [OF this] show ?thesis
      by (simp add: Transfer_unfold)
  next
    case (Some r)
    show ?thesis
    proof (cases "a_balance r <s amount")
      case True
      have "tx_db (Begin d) = d" by (simp add: Begin_def)
      with Some True TransferTx_insufficient [of "\<lparr>tx_db = d\<lparr>payment_states := payment_states d @ [(transactionID, ''PENDING'')]\<rparr>, tx_locks = []\<rparr>" a r a r amount transactionID]
      show ?thesis by (simp add: Transfer_unfold)
    next
      case False
      with two [OF Some] show ?thesis by blast
    qed
  qed
  with two show ?thesis by blast
qed

theorem self_transfer_rolled_back_witness:
  "Transfer demo_db ''X'' ''X'' ''tx-1'' 3000 =
     (Some (ErrMsg ''optimistic lock failed for account X''), demo_db) \<and>
   map a_version (accounts (tx_db (snd (TransferTx (Begin demo_db) ''X'' ''X'' ''tx-1'' 3000)))) = [2, 1]"
proof -
  have x: "find_account demo_db ''X'' = Some (accounts demo_db ! 0)"
    by (simp add: find_account_def demo_db_def)
  have b: "\<not> a_balance (accounts demo_db ! 0) <s 3000"
    by (simp add: demo_db_def)
  from self_transfer_rolled_back [of demo_db "''X''" "''tx-1''" 3000] x b
  have "Transfer demo_db ''X'' ''X'' ''tx-1'' 3000 =
        (Some (ErrMsg (''optimistic lock failed for account '' @ a_id (accounts demo_db ! 0))), demo_db)"
    "accounts (tx_db (snd (TransferTx (Begin demo_db) ''X'' ''X'' ''tx-1'' 3000))) =
        map (update_row (a_id (accounts demo_db ! 0)) (a_version (accounts demo_db ! 0))
          (a_balance (accounts demo_db ! 0) - 3000)) (accounts demo_db)"
    by blast+
  then show ?thesis
    by (simp add: demo_db_def update_row_def)
qed

section \<open>The key registry: claims\<close>

text \<open>
  C8. For a key in the registry: \<open>SignData\<close> returns the not-active error when the key
  is inactive, whatever the data; \<open>VerifySignature\<close> never returns an error and its
  verdict is that of the library on the key's public key, so it does not depend on the
  active flag. Hence deactivating a key changes no verdict of \<open>VerifySignature\<close> on it
  (a signature \<open>SignData\<close> issued while it was active verifies as before), while
  \<open>SignData\<close> on the deactivated key fails.
\<close>

theorem inactive_key_verifies_but_does_not_sign:
  assumes "keys h keyID = Some keyPair"
  shows "(\<not> IsActive keyPair \<longrightarrow>
            SignData lib h keyID data = Inl (ErrMsg (''key '' @ keyID @ '' is not active''))) \<and>
         VerifySignature lib h keyID data signature =
           (VerifyPKCS1v15 lib (PublicKey keyPair) (Sum256 lib data) signature = None, None) \<and>
         VerifySignature lib (deactivate h keyID) keyID data signature =
           VerifySignature lib h keyID data signature \<and>
         SignData lib (deactivate h keyID) keyID data' =
           Inl (ErrMsg (''key '' @ keyID @ '' is not active''))"
  using assms
  by (auto simp: SignData_def VerifySignature_def deactivate_def split: option.splits)

theorem inactive_key_verifies_but_does_not_sign_witness:
  "SignData demo_rsa demo_hsm ''k1'' [1, 2] = Inr [7, 1, 2] \<and>
   VerifySignature demo_rsa (deactivate demo_hsm ''k1'') ''k1'' [1, 2] [7, 1, 2] = (True, None) \<and>
   VerifySignature demo_rsa (deactivate demo_hsm ''k1'') ''k1'' [1, 2] [7, 1, 3] = (False, None) \<and>
   SignData demo_rsa (deactivate demo_hsm ''k1'') ''k1'' [1, 2] = Inl (ErrMsg ''key k1 is not active'') \<and>
   SignData demo_rsa (deactivate (deactivate demo_hsm ''k1'') ''k1'') ''k1'' [9] = Inl (ErrMsg ''key k1 is not active'')"
proof -
  let ?kp = "\<lparr>ID_kp = ''k1'', PublicKey = 7 :: byte, PrivateKey = 7 :: byte, CreatedAt_kp = 0,
      ExpiresAt = 31536000, IsActive = True\<rparr>"
  have k: "keys demo_hsm ''k1'' = Some ?kp" by (simp add: demo_hsm_def)
  have k': "keys (deactivate demo_hsm ''k1'') ''k1'' = Some (?kp\<lparr>IsActive := False\<rparr>)"
    by (simp add: demo_hsm_def deactivate_def)
  have s: "SignData demo_rsa demo_hsm ''k1'' [1, 2] = Inr [7, 1, 2]"
    by (simp add: SignData_def demo_hsm_def demo_rsa_def)
  note a = inactive_key_verifies_but_does_not_sign [OF k, of demo_rsa]
  note b = inactive_key_verifies_but_does_not_sign [OF k', of demo_rsa "[1, 2]"]
  have v1: "VerifySignature demo_rsa (deactivate demo_hsm ''k1'') ''k1'' [1, 2] [7, 1, 2] = (True, None)"
    using a [of "[1, 2]" "[7, 1, 2]"] by (simp add: demo_rsa_def)
  have v2: "VerifySignature demo_rsa (deactivate demo_hsm ''k1'') ''k1'' [1, 2] [7, 1, 3] = (False, None)"
    using a [of "[1, 2]" "[7, 1, 3]"] by (simp add: demo_rsa_def)
  have s1: "SignData demo_rsa (deactivate demo_hsm ''k1'') ''k1'' [1, 2] = Inl (ErrMsg ''key k1 is not active'')"
    using b by simp
  have s2: "SignData demo_rsa (deactivate (deactivate demo_hsm ''k1'') ''k1'') ''k1'' [9] = Inl (ErrMsg ''key k1 is not active'')"
    using b [of _ "[9]"] by simp
  show ?thesis using s v1 v2 s1 s2 by simp
qed

section \<open>The transaction service: facts\<close>

lemma storeTransaction_TxID:
  "storeTransaction sch d now tx = (err, d', tx') \<Longrightarrow> TxID tx' = TxID tx"
  by (auto simp: storeTransaction_def Let_def split: prod.splits)

lemma storeTransaction_stored:
  "storeTransaction sch d now tx = (err, d', tx') \<Longrightarrow> tx' = stored tx now"
  by (auto simp: storeTransaction_def stored_def Let_def split: prod.splits)

lemma batch_loop_run_each:
  "batch_loop sch lib now txs d ok bad =
     (case run_each sch lib now txs d of
        (d', outcomes) \<Rightarrow> (d', ok @ processed_of outcomes, bad @ failed_of outcomes))"
proof (induction txs arbitrary: d ok bad)
  case Nil
  show ?case by simp
next
  case (Cons tx txs)
  show ?case
  proof (cases "validateTransaction d now tx")
    case (Some err)
    then show ?thesis
      by (simp add: Cons.IH process_one_def split: prod.splits)
  next
    case None
    note v = this
    show ?thesis
    proof (cases "verifySignature lib d tx")
      case (Some err)
      with v show ?thesis
        by (simp add: Cons.IH process_one_def split: prod.splits)
    next
      case None
      note s = this
      show ?thesis
      proof (cases "checkDoubleSpending sch d tx")
        case (Some err)
        with v s show ?thesis
          by (simp add: Cons.IH process_one_def split: prod.splits)
      next
        case None
        note c = this
        obtain e1 d1 where p: "processLedgerTransfer d tx = (e1, d1)"
          by (cases "processLedgerTransfer d tx")
        show ?thesis
        proof (cases e1)
          case (Some err)
          with v s c p show ?thesis
            by (simp add: Cons.IH process_one_def split: prod.splits)
        next
          case None
          note t = this
          obtain e2 d2 tx' where st: "storeTransaction sch d1 now tx = (e2, d2, tx')"
            by (cases "storeTransaction sch d1 now tx")
          have id: "TxID tx' = TxID tx" by (rule storeTransaction_TxID [OF st])
          show ?thesis
          proof (cases e2)
            case (Some err)
            with v s c p t st id show ?thesis
              by (simp add: Cons.IH process_one_def split: prod.splits)
          next
            case None
            with v s c p t st show ?thesis
              by (simp add: Cons.IH process_one_def split: prod.splits)
          qed
        qed
      qed
    qed
  qed
qed

lemma run_each_length: "length (snd (run_each sch lib now txs d)) = length txs"
proof (induction txs arbitrary: d)
  case Nil
  show ?case by simp
next
  case (Cons tx txs)
  obtain d1 outcome where p: "process_one sch lib now d tx = (d1, outcome)"
    by (cases "process_one sch lib now d tx")
  obtain d2 outcomes where r: "run_each sch lib now txs d1 = (d2, outcomes)"
    by (cases "run_each sch lib now txs d1")
  from Cons.IH [of d1] r show ?case by (simp add: p)
qed

lemma outcomes_length: "length (processed_of os) + length (failed_of os) = length os"
  by (induction os rule: processed_of.induct) auto

lemma process_one_id:
  "process_one sch lib now d tx = (d', outcome) \<Longrightarrow>
     (case outcome of Inl f \<Rightarrow> fst f = TxID tx | Inr p \<Rightarrow> TxID p = TxID tx)"
  by (auto simp: process_one_def split: option.splits prod.splits dest: storeTransaction_TxID)

lemma run_each_ids:
  "mset (map TxID (processed_of (snd (run_each sch lib now txs d)))) +
   mset (map fst (failed_of (snd (run_each sch lib now txs d)))) = mset (map TxID txs)"
proof (induction txs arbitrary: d)
  case Nil
  show ?case by simp
next
  case (Cons tx txs)
  obtain d1 outcome where p: "process_one sch lib now d tx = (d1, outcome)"
    by (cases "process_one sch lib now d tx")
  obtain d2 outcomes where r: "run_each sch lib now txs d1 = (d2, outcomes)"
    by (cases "run_each sch lib now txs d1")
  from Cons.IH [of d1] r have ih:
    "mset (map TxID (processed_of outcomes)) + mset (map fst (failed_of outcomes)) = mset (map TxID txs)"
    by simp
  show ?case
  proof (cases outcome)
    case (Inl f)
    with process_one_id [OF p] have "fst f = TxID tx" by simp
    with Inl ih show ?thesis by (simp add: p r)
  next
    case (Inr q)
    with process_one_id [OF p] have "TxID q = TxID tx" by simp
    with Inr ih show ?thesis by (simp add: p r)
  qed
qed

lemma CreateTransaction_stored:
  assumes "ValidateStruct lib tx"
    and "find (\<lambda>row. t_transaction_id row = TxID tx) (transactions d) = Some row"
  shows "CreateTransaction sch lib d now tx = (AlreadyProcessed (t_status row = ''COMPLETED'') tx, d)"
  using assms by (simp add: CreateTransaction_def)

lemma CreateTransaction_rollback:
  assumes "CreateTransaction sch lib d now tx = (resp, d')" and "\<forall>t. resp \<noteq> Created t"
  shows "d' = d"
  using assms
  by (auto simp: CreateTransaction_def Let_def split: if_splits option.splits prod.splits)

lemma validateTransaction_window:
  assumes "validateTransaction d now tx = None"
  shows "\<not> now + 60 <s Timestamp tx \<and> \<not> Timestamp tx <s now - 604800"
  using assms
  by (simp add: validateTransaction_def split: if_splits option.splits)

lemma checkDoubleSpending_no_columns:
  "\<not> counter_columns sch \<Longrightarrow> checkDoubleSpending sch d tx = Some (ErrDb ''column card_id does not exist'')"
  by (simp add: checkDoubleSpending_def)

lemma checkDoubleSpending_used:
  assumes "counter_columns sch" "row \<in> set (transactions d)" "t_card_id row = Some (CardID tx)"
    "t_counter row = Some (Counter tx)"
  shows "checkDoubleSpending sch d tx = Some (ErrMsg ''counter already used'')"
  using assms by (auto simp: checkDoubleSpending_def list_ex_iff)

lemma insert_transaction_stored_id:
  assumes "TxID tx \<in> set (map t_transaction_id (transactions d))"
  shows "\<exists>err. insert_transaction sch d tx = (Some err, d)"
  using assms by (simp add: insert_transaction_def)

lemma insert_transaction_declared:
  "\<exists>err. insert_transaction declared_schema d tx = (Some err, d)"
  by (simp add: insert_transaction_def declared_schema_def declared_constraints_def inserted_row_def)

lemma storeTransaction_stored_id:
  assumes "TxID tx \<in> set (map t_transaction_id (transactions d))"
  shows "\<exists>err. storeTransaction sch d now tx = (Some err, d, stored tx now)"
proof -
  have "TxID (stored tx now) \<in> set (map t_transaction_id (transactions d))"
    using assms by (simp add: stored_def)
  from insert_transaction_stored_id [OF this, of sch] show ?thesis
    by (auto simp: storeTransaction_def stored_def Let_def)
qed

lemma Transfer_transactions:
  "transactions (snd (Transfer d f t txid amt)) = transactions d"
proof (cases "Transfer d f t txid amt")
  case (Pair e d')
  show ?thesis
  proof (cases e)
    case None
    with Pair Transfer_success [of d f t txid amt d'] show ?thesis by auto
  next
    case (Some err)
    with Pair Transfer_rollback [of d f t txid amt err d'] show ?thesis by simp
  qed
qed

text \<open>
  In the declared layout no request is ever stored: \<open>CreateTransaction\<close> never answers
  201 and leaves the store as it was, and the batch processes nothing.
\<close>

lemma CreateTransaction_declared_never_created:
  "fst (CreateTransaction declared_schema lib d now tx) \<noteq> Created t \<and>
   snd (CreateTransaction declared_schema lib d now tx) = d"
proof -
  have st: "storeTransactionTx declared_schema dbTx now tx \<noteq> (None, a, b)" for dbTx a b
    using insert_transaction_declared [of "tx_db dbTx" "stored tx now"]
    by (auto simp: storeTransactionTx_def stored_def Let_def)
  show ?thesis
    using st
    by (auto simp: CreateTransaction_def Let_def split: if_splits option.splits prod.splits)
qed

lemma process_one_declared:
  "\<exists>f. process_one declared_schema lib now d tx = (d, Inl f)"
  by (auto simp: process_one_def checkDoubleSpending_no_columns declared_schema_def
      split: option.splits)


lemmas service_defs =
  ValidateStruct_def validateTransaction_def validateAccountInternal_def
  checkSufficientBalanceInternal_def verifySignature_def getCardAuthKey_def
  checkDoubleSpending_def insert_transaction_def inserted_row_def storeTransaction_def
  storeTransactionTx_def processLedgerTransferTx_def processLedgerTransfer_def
  declared_schema_def declared_constraints_def assumed_schema_def
  demo_lib_def demo_tx_def word_sle_eq word_sless_alt

lemmas ledger_defs =
  Transfer_def TransferTx_def Begin_def Commit_def appendPaymentState_def
  lockAccount_def find_account_def createLedgerEntry_def updateAccountBalance_def
  exec_update_accounts_def update_row_def

lemmas demo_defs =
  demo_db_def demo_db1_def demo_row_def demo_accounts_def demo_entries_def stored_def

subsection \<open>Concrete runs\<close>

lemma demo_create_assumed:
  "CreateTransaction assumed_schema demo_lib demo_db 1700000010 (demo_tx ''tx-1'' 1700000000) =
     (Created (stored (demo_tx ''tx-1'' 1700000000) 1700000010), demo_db1)"
  by (simp add: CreateTransaction_def service_defs ledger_defs demo_defs)

lemma demo_create_declared:
  "CreateTransaction declared_schema demo_lib demo_db 1700000010 (demo_tx ''tx-1'' 1700000000) =
     (HttpError 500 ''Failed to store transaction'', demo_db)"
  by (simp add: CreateTransaction_def service_defs ledger_defs demo_defs)

text \<open>
  In the assumed layout two requests of the same card with the same counter are both
  processed, one after the other or in one batch.
\<close>

lemma demo_same_counter_assumed:
  "Counter (demo_tx ''tx-1'' 1700000000) = Counter (demo_tx ''tx-2'' 1700000005) \<and>
   CardID (demo_tx ''tx-1'' 1700000000) = CardID (demo_tx ''tx-2'' 1700000005) \<and>
   CreateTransaction assumed_schema demo_lib demo_db1 1700000020 (demo_tx ''tx-2'' 1700000005) =
     (Created (stored (demo_tx ''tx-2'' 1700000005) 1700000020),
      demo_db1\<lparr>accounts := demo_accounts 1000 5000 3,
        ledger_entries := demo_entries ''tx-1'' 3000 3000 @ demo_entries ''tx-2'' 1000 5000,
        transactions := [demo_row ''tx-1'', demo_row ''tx-2'']\<rparr>) \<and>
   fst (BatchTransactions assumed_schema demo_lib demo_db 1700000010
          [demo_tx ''tx-1'' 1700000000, demo_tx ''tx-2'' 1700000005]) =
     BatchDone \<lparr>processed = [stored (demo_tx ''tx-1'' 1700000000) 1700000010,
                              stored (demo_tx ''tx-2'' 1700000005) 1700000010],
        failed = [], total = 2, succeeded = 2, failed_count = 0\<rparr>"
  by (simp add: CreateTransaction_def BatchTransactions_def service_defs ledger_defs demo_defs)

lemma demo_resubmit_declared:
  "BatchTransactions declared_schema demo_lib demo_db1 1700000020 [demo_tx ''tx-1'' 1700000000] =
     (BatchDone \<lparr>processed = [], failed = [(''tx-1'', ''Double spending detected'')],
        total = 1, succeeded = 0, failed_count = 1\<rparr>, demo_db1)"
  by (simp add: BatchTransactions_def service_defs ledger_defs demo_defs)

lemma demo_resubmit_assumed:
  "BatchTransactions assumed_schema demo_lib demo_db1 1700000020 [demo_tx ''tx-1'' 1700000000] =
     (BatchDone \<lparr>processed = [], failed = [(''tx-1'', ''Storage failed'')],
        total = 1, succeeded = 0, failed_count = 1\<rparr>,
      demo_db1\<lparr>accounts := demo_accounts 1000 5000 3,
        ledger_entries := demo_entries ''tx-1'' 3000 3000 @ demo_entries ''tx-1'' 1000 5000,
        payment_states := [(''tx-1'', ''PENDING''), (''tx-1'', ''SUCCESS'')]\<rparr>)"
  by (simp add: BatchTransactions_def service_defs ledger_defs demo_defs)


lemma demo_db2_declared:
  "list_all (declared_constraints (demo_db2 status)) (transactions (demo_db2 status)) \<longleftrightarrow>
     status \<in> set [''PENDING'', ''PROCESSING'', ''COMPLETED'', ''FAILED'', ''CANCELLED'',
       ''FAILED_ACCOUNT_NOT_FOUND'', ''FAILED_ACCOUNT_NOT_ACTIVE'', ''FAILED_INSUFFICIENT_BALANCE'',
       ''FAILED_DEBIT_ERROR'', ''FAILED_ISO_CONVERSION'', ''FAILED_SETTLEMENT_ERROR'']"
  by (simp add: demo_db2_def demo_declared_row_def declared_constraints_def demo_db_def)

lemma demo_resubmit_declared_row:
  "BatchTransactions declared_schema demo_lib (demo_db2 ''COMPLETED'') 1700000020
     [demo_tx ''tx-1'' 1700000000] =
     (BatchDone \<lparr>processed = [], failed = [(''tx-1'', ''Double spending detected'')],
        total = 1, succeeded = 0, failed_count = 1\<rparr>, demo_db2 ''COMPLETED'')"
  by (simp add: BatchTransactions_def service_defs ledger_defs demo_defs demo_db2_def
      demo_declared_row_def)

lemma demo_run_declared:
  "run_each declared_schema demo_lib 1700000010 demo_batch_declared demo_db =
     (demo_db,
      [Inl (''tx-a'', ''transaction timestamp is too old (>7 days)''),
       Inl (''tx-b'', ''Signature verification failed''),
       Inl (''tx-c'', ''Double spending detected''),
       Inl (''tx-d'', ''Double spending detected'')])"
  by (simp add: process_one_def demo_batch_declared_def demo_bad_signature_def
      service_defs ledger_defs demo_defs)

lemma demo_run_assumed:
  "snd (run_each assumed_schema demo_lib 1700000010 demo_batch_assumed demo_db9) =
     [Inl (''tx-b'', ''Signature verification failed''),
      Inl (''tx-s'', ''Transfer failed''),
      Inr (stored (demo_tx ''tx-1'' 1700000000) 1700000010),
      Inl (''tx-1'', ''Storage failed''),
      Inr (stored (demo_tx ''tx-2'' 1700000000) 1700000010)] \<and>
   accounts (fst (run_each assumed_schema demo_lib 1700000010 demo_batch_assumed demo_db9)) =
     demo_accounts 3000 7000 4"
  by (simp add: process_one_def demo_batch_assumed_def demo_bad_signature_def demo_self_def
      demo_db9_def service_defs ledger_defs demo_defs)


lemma BatchTransactions_one:
  "BatchTransactions sch lib d now [tx] =
     (BatchDone \<lparr>processed = processed_of [snd (process_one sch lib now d tx)],
        failed = failed_of [snd (process_one sch lib now d tx)], total = 1,
        succeeded = length (processed_of [snd (process_one sch lib now d tx)]),
        failed_count = length (failed_of [snd (process_one sch lib now d tx)])\<rparr>,
      fst (process_one sch lib now d tx))"
  by (simp add: BatchTransactions_def batch_loop_run_each split: prod.splits)

lemma run_each_nth:
  "i < length txs \<Longrightarrow>
     snd (run_each sch lib now txs d) ! i =
       snd (process_one sch lib now (fst (run_each sch lib now (take i txs) d)) (txs ! i))"
proof (induction txs arbitrary: d i)
  case Nil
  then show ?case by simp
next
  case (Cons tx txs)
  obtain d1 outcome where p: "process_one sch lib now d tx = (d1, outcome)"
    by (cases "process_one sch lib now d tx")
  show ?case
  proof (cases i)
    case 0
    then show ?thesis by (simp add: p split: prod.splits)
  next
    case (Suc j)
    with Cons.prems have "j < length txs" by simp
    from Cons.IH [OF this, of d1] Suc show ?thesis
      by (auto simp: p split: prod.splits)
  qed
qed

section \<open>The transaction service: claims\<close>

text \<open>
  C3. For an identifier that is already in \<open>transactions\<close>, whatever the layout of the
  table: \<open>CreateTransaction\<close> looks it up and answers from the stored status, leaving
  the store as it was, but the loop of \<open>BatchTransactions\<close> has no such lookup. It takes
  the transaction through validation, signature and double-spend check again and never
  answers with the stored outcome: the transaction always ends in the failed list, also
  when its stored status is COMPLETED. In the declared layout the store is left as it
  was. In a layout where the three checks pass, the transfer is run again before storing
  fails on the unique identifier, and the store the batch leaves is the one that second
  transfer left.
\<close>

theorem batch_ignores_stored_identifier:
  assumes "find (\<lambda>row. t_transaction_id row = TxID tx) (transactions d) = Some row"
    and "ValidateStruct lib tx"
  shows "CreateTransaction sch lib d now tx = (AlreadyProcessed (t_status row = ''COMPLETED'') tx, d) \<and>
    (\<exists>reason d'. BatchTransactions sch lib d now [tx] =
       (BatchDone \<lparr>processed = [], failed = [(TxID tx, reason)],
          total = 1, succeeded = 0, failed_count = 1\<rparr>, d')) \<and>
    (\<exists>reason. BatchTransactions declared_schema lib d now [tx] =
       (BatchDone \<lparr>processed = [], failed = [(TxID tx, reason)],
          total = 1, succeeded = 0, failed_count = 1\<rparr>, d)) \<and>
    (validateTransaction d now tx = None \<and> verifySignature lib d tx = None \<and>
     checkDoubleSpending sch d tx = None \<longrightarrow>
       snd (BatchTransactions sch lib d now [tx]) =
         snd (Transfer d (CardID tx) (MerchantID tx) (TxID tx) (Amount tx)))"
proof -
  have mem: "TxID tx \<in> set (map t_transaction_id (transactions d))"
  proof -
    from assms(1) obtain i where "i < length (transactions d)"
      "t_transaction_id (transactions d ! i) = TxID tx"
      by (auto simp: find_Some_iff)
    then show ?thesis
      by (metis image_eqI nth_mem set_map)
  qed
  let ?T = "Transfer d (CardID tx) (MerchantID tx) (TxID tx) (Amount tx)"
  have "TxID tx \<in> set (map t_transaction_id (transactions (snd ?T)))"
    using mem by (simp add: Transfer_transactions)
  from storeTransaction_stored_id [OF this, of sch now]
  obtain err where st: "storeTransaction sch (snd ?T) now tx = (Some err, snd ?T, stored tx now)"
    by blast
  have pass: "\<exists>f. process_one sch lib now d tx = (snd ?T, Inl (TxID tx, f))"
    if "validateTransaction d now tx = None \<and> verifySignature lib d tx = None \<and>
        checkDoubleSpending sch d tx = None"
  proof (cases "?T")
    case (Pair e d1)
    show ?thesis
    proof (cases e)
      case None
      with Pair st that show ?thesis
        by (simp add: process_one_def processLedgerTransfer_def)
    next
      case (Some err1)
      with Pair that show ?thesis
        by (simp add: process_one_def processLedgerTransfer_def)
    qed
  qed
  have stop: "\<exists>f. process_one sch lib now d tx = (d, Inl (TxID tx, f))"
    if "\<not> (validateTransaction d now tx = None \<and> verifySignature lib d tx = None \<and>
        checkDoubleSpending sch d tx = None)"
    using that by (auto simp: process_one_def split: option.splits)
  have two: "\<exists>reason d'. BatchTransactions sch lib d now [tx] =
       (BatchDone \<lparr>processed = [], failed = [(TxID tx, reason)],
          total = 1, succeeded = 0, failed_count = 1\<rparr>, d')"
  proof -
    have "\<exists>f d'. process_one sch lib now d tx = (d', Inl (TxID tx, f))"
    proof (cases "validateTransaction d now tx = None \<and> verifySignature lib d tx = None \<and>
        checkDoubleSpending sch d tx = None")
      case True
      from pass [OF True] show ?thesis by blast
    next
      case False
      from stop [OF False] show ?thesis by blast
    qed
    then obtain f d' where "process_one sch lib now d tx = (d', Inl (TxID tx, f))" by blast
    then show ?thesis by (simp add: BatchTransactions_one)
  qed
  have declared: "\<exists>reason. BatchTransactions declared_schema lib d now [tx] =
       (BatchDone \<lparr>processed = [], failed = [(TxID tx, reason)],
          total = 1, succeeded = 0, failed_count = 1\<rparr>, d)"
  proof -
    from process_one_declared [of lib now d tx]
    obtain f where p: "process_one declared_schema lib now d tx = (d, Inl f)" by blast
    from process_one_id [OF p] have "fst f = TxID tx" by simp
    then have "f = (TxID tx, snd f)" by (cases f) simp
    with p have "process_one declared_schema lib now d tx = (d, Inl (TxID tx, snd f))" by simp
    then show ?thesis by (simp add: BatchTransactions_one)
  qed
  have three: "validateTransaction d now tx = None \<and> verifySignature lib d tx = None \<and>
     checkDoubleSpending sch d tx = None \<longrightarrow>
       snd (BatchTransactions sch lib d now [tx]) = snd ?T"
  proof
    assume c: "validateTransaction d now tx = None \<and> verifySignature lib d tx = None \<and>
     checkDoubleSpending sch d tx = None"
    from pass [OF c] obtain f where
      "process_one sch lib now d tx = (snd ?T, Inl (TxID tx, f))" by blast
    then show "snd (BatchTransactions sch lib d now [tx]) = snd ?T"
      by (simp add: BatchTransactions_one)
  qed
  from CreateTransaction_stored [OF assms(2) assms(1), of sch now] two declared three
  show ?thesis by blast
qed

theorem batch_ignores_stored_identifier_witness:
  "find (\<lambda>row. t_transaction_id row = TxID (demo_tx ''tx-1'' 1700000000))
     (transactions (demo_db2 ''COMPLETED'')) = Some (demo_declared_row ''tx-1'' ''COMPLETED'') \<and>
   ValidateStruct demo_lib (demo_tx ''tx-1'' 1700000000) \<and>
   CreateTransaction declared_schema demo_lib (demo_db2 ''COMPLETED'') 1700000020
       (demo_tx ''tx-1'' 1700000000) =
     (AlreadyProcessed True (demo_tx ''tx-1'' 1700000000), demo_db2 ''COMPLETED'') \<and>
   BatchTransactions declared_schema demo_lib (demo_db2 ''COMPLETED'') 1700000020
       [demo_tx ''tx-1'' 1700000000] =
     (BatchDone \<lparr>processed = [], failed = [(''tx-1'', ''Double spending detected'')],
        total = 1, succeeded = 0, failed_count = 1\<rparr>, demo_db2 ''COMPLETED'') \<and>
   find (\<lambda>row. t_transaction_id row = TxID (demo_tx ''tx-1'' 1700000000))
     (transactions demo_db1) = Some (demo_row ''tx-1'') \<and>
   validateTransaction demo_db1 1700000020 (demo_tx ''tx-1'' 1700000000) = None \<and>
   verifySignature demo_lib demo_db1 (demo_tx ''tx-1'' 1700000000) = None \<and>
   checkDoubleSpending assumed_schema demo_db1 (demo_tx ''tx-1'' 1700000000) = None \<and>
   CreateTransaction assumed_schema demo_lib demo_db1 1700000020 (demo_tx ''tx-1'' 1700000000) =
     (AlreadyProcessed True (demo_tx ''tx-1'' 1700000000), demo_db1) \<and>
   snd (BatchTransactions assumed_schema demo_lib demo_db1 1700000020
       [demo_tx ''tx-1'' 1700000000]) =
     snd (Transfer demo_db1 ''card_X'' ''card_Y'' ''tx-1'' 2000) \<and>
   accounts (snd (Transfer demo_db1 ''card_X'' ''card_Y'' ''tx-1'' 2000)) =
     demo_accounts 1000 5000 3"
proof -
  let ?tx = "demo_tx ''tx-1'' 1700000000"
  have f2: "find (\<lambda>row. t_transaction_id row = TxID ?tx) (transactions (demo_db2 ''COMPLETED'')) =
      Some (demo_declared_row ''tx-1'' ''COMPLETED'')"
    by (simp add: demo_db2_def demo_declared_row_def demo_tx_def)
  have f1: "find (\<lambda>row. t_transaction_id row = TxID ?tx) (transactions demo_db1) =
      Some (demo_row ''tx-1'')"
    by (simp add: demo_db1_def demo_row_def demo_tx_def)
  have v: "ValidateStruct demo_lib ?tx"
    by (simp add: service_defs)
  have c: "validateTransaction demo_db1 1700000020 ?tx = None \<and>
      verifySignature demo_lib demo_db1 ?tx = None \<and>
      checkDoubleSpending assumed_schema demo_db1 ?tx = None"
    by (simp add: service_defs demo_defs)
  note t2 = batch_ignores_stored_identifier [OF f2 v, of declared_schema 1700000020]
  note t1 = batch_ignores_stored_identifier [OF f1 v, of assumed_schema 1700000020]
  from t2 have a: "CreateTransaction declared_schema demo_lib (demo_db2 ''COMPLETED'') 1700000020 ?tx =
      (AlreadyProcessed True ?tx, demo_db2 ''COMPLETED'')"
    by (simp add: demo_declared_row_def)
  from t1 have b: "CreateTransaction assumed_schema demo_lib demo_db1 1700000020 ?tx =
      (AlreadyProcessed True ?tx, demo_db1)"
    by (simp add: demo_row_def)
  from t1 c have e: "snd (BatchTransactions assumed_schema demo_lib demo_db1 1700000020 [?tx]) =
      snd (Transfer demo_db1 ''card_X'' ''card_Y'' ''tx-1'' 2000)"
    by (simp add: demo_tx_def)
  have g: "accounts (snd (Transfer demo_db1 ''card_X'' ''card_Y'' ''tx-1'' 2000)) =
      demo_accounts 1000 5000 3"
    by (simp add: ledger_defs demo_defs word_sle_eq word_sless_alt)
  from f2 f1 v c a b e g demo_resubmit_declared_row show ?thesis
    by (simp only: simp_thms)
qed

text \<open>
  C5. The window of \<open>validateTransaction\<close> is 60 seconds ahead and 7 days back, not 30
  seconds and 5 minutes: with the clock at 1700000000, a transaction stamped 301
  seconds earlier, one stamped 6 days earlier and one stamped 31 seconds later all pass
  validation. The single path processes the first of them (201) in the assumed layout;
  in the declared layout it takes it as far as the insert, which the table refuses
  (500), so there too it is not rejected by validation.
\<close>

theorem validateTransaction_window_7_days:
  "validateTransaction demo_db 1700000000 (demo_tx ''tx-1'' (1700000000 - 301)) = None \<and>
   validateTransaction demo_db 1700000000 (demo_tx ''tx-1'' (1700000000 - 518400)) = None \<and>
   validateTransaction demo_db 1700000000 (demo_tx ''tx-1'' (1700000000 + 31)) = None \<and>
   fst (CreateTransaction assumed_schema demo_lib demo_db 1700000000
          (demo_tx ''tx-1'' (1700000000 - 301))) =
     Created (stored (demo_tx ''tx-1'' (1700000000 - 301)) 1700000000) \<and>
   fst (CreateTransaction declared_schema demo_lib demo_db 1700000000
          (demo_tx ''tx-1'' (1700000000 - 301))) =
     HttpError 500 ''Failed to store transaction'' \<and>
   validateTransaction demo_db 1700000000 (demo_tx ''tx-1'' (1700000000 + 61)) =
     Some (ErrMsg ''transaction timestamp is in the future'') \<and>
   validateTransaction demo_db 1700000000 (demo_tx ''tx-1'' (1700000000 - 604801)) =
     Some (ErrMsg ''transaction timestamp is too old (>7 days)'')"
  by (simp add: CreateTransaction_def service_defs ledger_defs demo_defs)

text \<open>
  C9 (as amended). A request of more than 100 transactions is refused and leaves the
  store as it was, and so is a request of none. For a request of 1 to 100 transactions
  the answer is that of \<open>run_each\<close>: every transaction is taken through its own
  validation, signature, double-spend check, transfer and storage on the store the
  ones before it left, whatever their outcome, and ends in the processed list or, with
  the reason of its own failure, in the failed list, in the order of the request. The
  outcome at each position is that of \<open>process_one\<close> on the transaction at that
  position. There are as many outcomes as transactions, each transaction is in exactly
  one of the two lists, and the summary counts are the length of the input, of the
  processed list and of the failed list, the first being the sum of the other two.
\<close>

theorem BatchTransactions_partition:
  "(length txs > 100 \<longrightarrow>
      BatchTransactions sch lib d now txs = (HttpError 400 ''Batch size exceeds limit (100)'', d)) \<and>
   (0 < length txs \<and> length txs \<le> 100 \<longrightarrow>
      BatchTransactions sch lib d now txs =
        (BatchDone \<lparr>processed = processed_of (snd (run_each sch lib now txs d)),
           failed = failed_of (snd (run_each sch lib now txs d)),
           total = length txs,
           succeeded = length (processed_of (snd (run_each sch lib now txs d))),
           failed_count = length (failed_of (snd (run_each sch lib now txs d)))\<rparr>,
         fst (run_each sch lib now txs d)) \<and>
      length (snd (run_each sch lib now txs d)) = length txs \<and>
      (\<forall>i<length txs.
         snd (run_each sch lib now txs d) ! i =
           snd (process_one sch lib now (fst (run_each sch lib now (take i txs) d)) (txs ! i))) \<and>
      length txs = length (processed_of (snd (run_each sch lib now txs d))) +
                   length (failed_of (snd (run_each sch lib now txs d))) \<and>
      mset (map TxID (processed_of (snd (run_each sch lib now txs d)))) +
        mset (map fst (failed_of (snd (run_each sch lib now txs d)))) = mset (map TxID txs)) \<and>
   BatchTransactions sch lib d now [] = (HttpError 400 ''No transactions provided'', d)"
proof -
  let ?outs = "snd (run_each sch lib now txs d)"
  have big: "length txs > 100 \<longrightarrow>
      BatchTransactions sch lib d now txs = (HttpError 400 ''Batch size exceeds limit (100)'', d)"
    by (simp add: BatchTransactions_def)
  have run: "BatchTransactions sch lib d now txs =
        (BatchDone \<lparr>processed = processed_of ?outs, failed = failed_of ?outs,
           total = length txs, succeeded = length (processed_of ?outs),
           failed_count = length (failed_of ?outs)\<rparr>,
         fst (run_each sch lib now txs d))"
    if "0 < length txs \<and> length txs \<le> 100"
    using that
    by (simp add: BatchTransactions_def batch_loop_run_each split: prod.splits)
  have len: "length ?outs = length txs" by (rule run_each_length)
  have each: "\<forall>i<length txs. ?outs ! i =
      snd (process_one sch lib now (fst (run_each sch lib now (take i txs) d)) (txs ! i))"
    by (simp add: run_each_nth)
  have cnt: "length txs = length (processed_of ?outs) + length (failed_of ?outs)"
    using outcomes_length [of ?outs] len by simp
  have ids: "mset (map TxID (processed_of ?outs)) + mset (map fst (failed_of ?outs)) =
      mset (map TxID txs)"
    by (rule run_each_ids)
  have none: "BatchTransactions sch lib d now [] = (HttpError 400 ''No transactions provided'', d)"
    by (simp add: BatchTransactions_def)
  from big run len each cnt ids none show ?thesis by blast
qed

theorem BatchTransactions_partition_witness:
  "length (replicate 101 (demo_tx ''tx-1'' 1700000000)) > 100 \<and>
   BatchTransactions declared_schema demo_lib demo_db 1700000010
       (replicate 101 (demo_tx ''tx-1'' 1700000000)) =
     (HttpError 400 ''Batch size exceeds limit (100)'', demo_db) \<and>
   0 < length demo_batch_declared \<and> length demo_batch_declared \<le> 100 \<and>
   BatchTransactions declared_schema demo_lib demo_db 1700000010 demo_batch_declared =
     (BatchDone \<lparr>processed = [],
        failed = [(''tx-a'', ''transaction timestamp is too old (>7 days)''),
                  (''tx-b'', ''Signature verification failed''),
                  (''tx-c'', ''Double spending detected''),
                  (''tx-d'', ''Double spending detected'')],
        total = 4, succeeded = 0, failed_count = 4\<rparr>, demo_db) \<and>
   0 < length demo_batch_assumed \<and> length demo_batch_assumed \<le> 100 \<and>
   fst (BatchTransactions assumed_schema demo_lib demo_db9 1700000010 demo_batch_assumed) =
     BatchDone \<lparr>processed = [stored (demo_tx ''tx-1'' 1700000000) 1700000010,
                              stored (demo_tx ''tx-2'' 1700000000) 1700000010],
        failed = [(''tx-b'', ''Signature verification failed''),
                  (''tx-s'', ''Transfer failed''),
                  (''tx-1'', ''Storage failed'')],
        total = 5, succeeded = 2, failed_count = 3\<rparr> \<and>
   4 < length demo_batch_assumed \<and>
   snd (process_one assumed_schema demo_lib 1700000010
          (fst (run_each assumed_schema demo_lib 1700000010 (take 4 demo_batch_assumed) demo_db9))
          (demo_batch_assumed ! 4)) =
     Inr (stored (demo_tx ''tx-2'' 1700000000) 1700000010)"
proof -
  let ?big = "replicate 101 (demo_tx ''tx-1'' 1700000000)"
  have big: "length ?big > 100" by simp
  have l1: "0 < length demo_batch_declared \<and> length demo_batch_declared \<le> 100"
    by (simp add: demo_batch_declared_def)
  have l2: "0 < length demo_batch_assumed \<and> length demo_batch_assumed \<le> 100"
    by (simp add: demo_batch_assumed_def)
  have l3: "4 < length demo_batch_assumed"
    by (simp add: demo_batch_assumed_def)
  note t0 = BatchTransactions_partition [of ?big declared_schema demo_lib demo_db 1700000010,
    THEN conjunct1, THEN mp, OF big]
  note t1 = BatchTransactions_partition [of demo_batch_declared declared_schema demo_lib demo_db
    1700000010, THEN conjunct2, THEN conjunct1, THEN mp, OF l1]
  note t2 = BatchTransactions_partition [of demo_batch_assumed assumed_schema demo_lib demo_db9
    1700000010, THEN conjunct2, THEN conjunct1, THEN mp, OF l2]
  note a1 = t1 [THEN conjunct1, unfolded demo_run_declared]
  note a2 = t2 [THEN conjunct1, unfolded demo_run_assumed [THEN conjunct1]]
  note e = t2 [THEN conjunct2, THEN conjunct2, THEN conjunct1, rule_format, OF l3, symmetric]
  from a1 have r1: "BatchTransactions declared_schema demo_lib demo_db 1700000010 demo_batch_declared =
     (BatchDone \<lparr>processed = [],
        failed = [(''tx-a'', ''transaction timestamp is too old (>7 days)''),
                  (''tx-b'', ''Signature verification failed''),
                  (''tx-c'', ''Double spending detected''),
                  (''tx-d'', ''Double spending detected'')],
        total = 4, succeeded = 0, failed_count = 4\<rparr>, demo_db)"
    by (simp add: demo_batch_declared_def)
  from a2 have r2: "fst (BatchTransactions assumed_schema demo_lib demo_db9 1700000010 demo_batch_assumed) =
     BatchDone \<lparr>processed = [stored (demo_tx ''tx-1'' 1700000000) 1700000010,
                              stored (demo_tx ''tx-2'' 1700000000) 1700000010],
        failed = [(''tx-b'', ''Signature verification failed''),
                  (''tx-s'', ''Transfer failed''),
                  (''tx-1'', ''Storage failed'')],
        total = 5, succeeded = 2, failed_count = 3\<rparr>"
    by (simp add: demo_batch_assumed_def)
  from e
  have r3: "snd (process_one assumed_schema demo_lib 1700000010
          (fst (run_each assumed_schema demo_lib 1700000010 (take 4 demo_batch_assumed) demo_db9))
          (demo_batch_assumed ! 4)) =
     Inr (stored (demo_tx ''tx-2'' 1700000000) 1700000010)"
    by (simp add: demo_run_assumed)
  from big t0 l1 l2 l3 r1 r2 r3 show ?thesis
    by (simp only: simp_thms)
qed

text \<open>
  C9 fails as stated on the empty request, which is within the limit: it is refused
  with status 400 and gets no partition and no summary.
\<close>

theorem BatchTransactions_empty_refused:
  "BatchTransactions declared_schema demo_lib demo_db 1700000010 [] =
     (HttpError 400 ''No transactions provided'', demo_db)"
  by (simp add: BatchTransactions_def)

end
